theory Spec2Isabelle
  imports Complex_Main "HOL-Library.Word" "HOL-Library.Sublist"
begin

unbundle bit_operations_syntax

section \<open>Bytes, errors and the hexadecimal helpers of binascii\<close>

text \<open>
  The module \<^verbatim>\<open>lib/bitcoin.py\<close> works on Python \<^verbatim>\<open>bytes\<close> and \<^verbatim>\<open>str\<close> values. A byte is
  an 8-bit word, a byte string a list of bytes, a string a list of characters. Every
  exception the module can raise is a constructor of \<open>error\<close>, and a function that may
  raise returns \<open>error + 'a\<close>.
\<close>

type_synonym byte = "8 word"
type_synonym bytes = "byte list"

datatype error =
    InvalidBase58Error char
  | VersionByteError
  | Base58ChecksumError bytes bytes
  | BinasciiError
  | InvalidAddressError string string
  | TransactionError string
  | BalanceError string int
  | AssertionError
  | OverflowError
  | NameError
  | BitcoindError string
  | KeyError string
  | ZeroDivisionError

text \<open>Sequencing of computations that may raise.\<close>

definition bind_err :: "error + 'a \<Rightarrow> ('a \<Rightarrow> error + 'b) \<Rightarrow> error + 'b" where
  "bind_err m f = (case m of Inl e \<Rightarrow> Inl e | Inr x \<Rightarrow> f x)"

definition hex_digits :: string where
  "hex_digits = ''0123456789abcdef''"

definition hexval :: "char \<Rightarrow> nat option" where
  "hexval c =
     (let n = of_char c :: nat in
      if 48 \<le> n \<and> n \<le> 57 then Some (n - 48)
      else if 97 \<le> n \<and> n \<le> 102 then Some (n - 87)
      else if 65 \<le> n \<and> n \<le> 70 then Some (n - 55)
      else None)"

text \<open>\<^verbatim>\<open>binascii.hexlify\<close>: two lower-case digits per byte.\<close>

fun hexlify :: "bytes \<Rightarrow> string" where
  "hexlify [] = []"
| "hexlify (b # bs) = hex_digits ! (unat b div 16) # hex_digits ! (unat b mod 16) # hexlify bs"

text \<open>\<^verbatim>\<open>binascii.unhexlify\<close>: raises on an odd length and on a character that is no digit.\<close>

fun unhexlify :: "string \<Rightarrow> error + bytes" where
  "unhexlify [] = Inr []"
| "unhexlify [c] = Inl BinasciiError"
| "unhexlify (c # d # s) =
     (case (hexval c, hexval d) of
        (Some h, Some l) \<Rightarrow>
          (case unhexlify s of Inl e \<Rightarrow> Inl e | Inr bs \<Rightarrow> Inr (of_nat (16 * h + l) # bs))
      | _ \<Rightarrow> Inl BinasciiError)"

text \<open>\<^verbatim>\<open>int(s, 16)\<close> on a string of hexadecimal digits (after the \<^verbatim>\<open>0x\<close> prefix).\<close>

definition int16 :: "string \<Rightarrow> nat" where
  "int16 s = foldl (\<lambda>n c. 16 * n + (case hexval c of Some d \<Rightarrow> d | None \<Rightarrow> 0)) 0 s"

text \<open>\<^verbatim>\<open>'%x' % n\<close>: the shortest lower-case hexadecimal numeral, \<^verbatim>\<open>'0'\<close> for zero.\<close>

fun percent_x :: "nat \<Rightarrow> string" where
  "percent_x n = (if n < 16 then [hex_digits ! n] else percent_x (n div 16) @ [hex_digits ! (n mod 16)])"

declare percent_x.simps [simp del]

section \<open>The double hash\<close>

text \<open>
  \<^verbatim>\<open>dhash = lambda x: hashlib.sha256(hashlib.sha256(x).digest()).digest()\<close>.
  \<^verbatim>\<open>hashlib.sha256\<close> is SHA-256 of FIPS 180-4, written here on 32-bit values held as
  naturals with the reduction modulo \<open>2 ^ 32\<close> spelled out.
\<close>

definition m32 :: "nat \<Rightarrow> nat" where "m32 x = x mod 4294967296"
definition rotr :: "nat \<Rightarrow> nat \<Rightarrow> nat" where
  "rotr n x = (x div 2 ^ n) OR m32 (x * 2 ^ (32 - n))"
definition Ch :: "nat \<Rightarrow> nat \<Rightarrow> nat \<Rightarrow> nat" where
  "Ch x y z = (x AND y) XOR ((x XOR 4294967295) AND z)"
definition Maj :: "nat \<Rightarrow> nat \<Rightarrow> nat \<Rightarrow> nat" where
  "Maj x y z = (x AND y) XOR (x AND z) XOR (y AND z)"
definition bsig0 :: "nat \<Rightarrow> nat" where "bsig0 x = rotr 2 x XOR rotr 13 x XOR rotr 22 x"
definition bsig1 :: "nat \<Rightarrow> nat" where "bsig1 x = rotr 6 x XOR rotr 11 x XOR rotr 25 x"
definition ssig0 :: "nat \<Rightarrow> nat" where "ssig0 x = rotr 7 x XOR rotr 18 x XOR (x div 2 ^ 3)"
definition ssig1 :: "nat \<Rightarrow> nat" where "ssig1 x = rotr 17 x XOR rotr 19 x XOR (x div 2 ^ 10)"

definition K256 :: "nat list" where
  "K256 = [
  1116352408, 1899447441, 3049323471, 3921009573, 961987163, 1508970993, 2453635748, 2870763221,
  3624381080, 310598401, 607225278, 1426881987, 1925078388, 2162078206, 2614888103, 3248222580,
  3835390401, 4022224774, 264347078, 604807628, 770255983, 1249150122, 1555081692, 1996064986,
  2554220882, 2821834349, 2952996808, 3210313671, 3336571891, 3584528711, 113926993, 338241895,
  666307205, 773529912, 1294757372, 1396182291, 1695183700, 1986661051, 2177026350, 2456956037,
  2730485921, 2820302411, 3259730800, 3345764771, 3516065817, 3600352804, 4094571909, 275423344,
  430227734, 506948616, 659060556, 883997877, 958139571, 1322822218, 1537002063, 1747873779,
  1955562222, 2024104815, 2227730452, 2361852424, 2428436474, 2756734187, 3204031479, 3329325298]"

definition H0 :: "nat list" where
  "H0 = [1779033703, 3144134277, 1013904242, 2773480762, 1359893119, 2600822924, 528734635, 1541459225]"

definition be_word :: "byte list \<Rightarrow> nat" where
  "be_word bs = foldl (\<lambda>a b. a * 256 + unat b) 0 bs"

definition word_be :: "nat \<Rightarrow> byte list" where
  "word_be w = [of_nat (w div 16777216), of_nat (w div 65536 mod 256), of_nat (w div 256 mod 256), of_nat (w mod 256)]"

fun chunks :: "nat \<Rightarrow> 'a list \<Rightarrow> 'a list list" where
  "chunks n [] = []"
| "chunks n (x # xs) = (if n = 0 then [x # xs] else take n (x # xs) # chunks n (drop n (x # xs)))"

definition sha_pad :: "byte list \<Rightarrow> byte list" where
  "sha_pad m = m @ [0x80] @ replicate ((119 - length m mod 64) mod 64) 0
       @ map (\<lambda>i. of_nat ((8 * length m) div 256 ^ i mod 256)) [7, 6, 5, 4, 3, 2, 1, 0]"

definition next_w :: "nat list \<Rightarrow> nat list" where
  "next_w w = tl w @ [m32 (ssig1 (w ! 14) + w ! 9 + ssig0 (w ! 1) + w ! 0)]"

fun round_step :: "nat list \<Rightarrow> nat \<Rightarrow> nat \<Rightarrow> nat list" where
  "round_step [a, b, c, d, e, f, g, h] t1 t2 = [m32 (t1 + t2), a, b, c, m32 (d + t1), e, f, g]"
| "round_step s _ _ = s"

fun rounds :: "nat list \<Rightarrow> nat list \<Rightarrow> nat list \<Rightarrow> nat list" where
  "rounds [] w s = s"
| "rounds (k # ks) w s = rounds ks (next_w w)
     (round_step s (m32 (s ! 7 + bsig1 (s ! 4) + Ch (s ! 4) (s ! 5) (s ! 6) + k + w ! 0))
                   (m32 (bsig0 (s ! 0) + Maj (s ! 0) (s ! 1) (s ! 2))))"

definition compress :: "nat list \<Rightarrow> byte list \<Rightarrow> nat list" where
  "compress h blk = map2 (\<lambda>x y. m32 (x + y)) h (rounds K256 (map be_word (chunks 4 blk)) h)"

definition sha256 :: "byte list \<Rightarrow> byte list" where
  "sha256 m = concat (map word_be (foldl compress H0 (chunks 64 (sha_pad m))))"



definition dhash :: "bytes \<Rightarrow> bytes" where
  "dhash x = sha256 (sha256 x)"

section \<open>Base58Check\<close>

definition b58_digits :: string where
  "b58_digits = ''123456789ABCDEFGHJKLMNPQRSTUVWXYZabcdefghijkmnopqrstuvwxyz''"

text \<open>\<^verbatim>\<open>str.index\<close> on a character known to occur.\<close>

fun index_of :: "'a \<Rightarrow> 'a list \<Rightarrow> nat" where
  "index_of c [] = 0"
| "index_of c (x # xs) = (if x = c then 0 else Suc (index_of c xs))"

text \<open>The loop \<^verbatim>\<open>while n > 0: n, r = divmod(n, 58); res.append(b58_digits[r])\<close>, reversed.\<close>

fun b58_of_nat :: "nat \<Rightarrow> string" where
  "b58_of_nat n = (if n = 0 then [] else b58_of_nat (n div 58) @ [b58_digits ! (n mod 58)])"

declare b58_of_nat.simps [simp del]

definition base58_check_encode :: "string \<Rightarrow> bytes \<Rightarrow> error + string" where
  "base58_check_encode b version =
     (case unhexlify b of
        Inl e \<Rightarrow> Inl e
      | Inr b' \<Rightarrow>
          (let d = version @ b';
               address_hex = d @ take 4 (dhash d);
               n = int16 (''0'' @ hexlify address_hex);
               res = b58_of_nat n;
               pad = length (takeWhile (\<lambda>c. c = 0) d)
           in Inr (replicate pad (b58_digits ! 0) @ res)))"

text \<open>The loop \<^verbatim>\<open>for c in s: n *= 58; ...; n += digit\<close> of \<^verbatim>\<open>base58_decode\<close>.\<close>

fun b58_to_nat :: "nat \<Rightarrow> string \<Rightarrow> error + nat" where
  "b58_to_nat n [] = Inr n"
| "b58_to_nat n (c # s) =
     (if c \<notin> set b58_digits then Inl (InvalidBase58Error c)
      else b58_to_nat (n * 58 + index_of c b58_digits) s)"

text \<open>
  The bytes \<^verbatim>\<open>k = version * pad + res\<close> that \<^verbatim>\<open>base58_decode\<close> builds from the string: the
  digits as an integer, its shortest even-length hexadecimal numeral as bytes, and one copy
  of \<^verbatim>\<open>version\<close> for every leading \<^verbatim>\<open>'1'\<close> among all characters but the last.
\<close>

definition base58_bytes :: "string \<Rightarrow> bytes \<Rightarrow> error + bytes" where
  "base58_bytes s version =
     (case b58_to_nat 0 s of
        Inl e \<Rightarrow> Inl e
      | Inr n \<Rightarrow>
          (let h = percent_x n;
               h = (if length h mod 2 \<noteq> 0 then ''0'' @ h else h)
           in case unhexlify h of
                Inl e \<Rightarrow> Inl e
              | Inr res \<Rightarrow>
                  (let pad = length (takeWhile (\<lambda>c. c = b58_digits ! 0) (butlast s))
                   in Inr (concat (replicate pad version) @ res))))"

definition base58_decode :: "string \<Rightarrow> bytes \<Rightarrow> error + bytes" where
  "base58_decode s version =
     (case base58_bytes s version of
        Inl e \<Rightarrow> Inl e
      | Inr k \<Rightarrow>
          (let addrbyte = take 1 k;
               data = drop 1 (take (length k - 4) k);
               chk0 = drop (length k - 4) k
           in if addrbyte \<noteq> version then Inl VersionByteError
              else let chk1 = take 4 (dhash (addrbyte @ data))
                   in if chk0 \<noteq> chk1 then Inl (Base58ChecksumError chk0 chk1)
                      else Inr data))"


section \<open>Wire primitives\<close>

text \<open>\<^verbatim>\<open>int.to_bytes(length, byteorder='little')\<close>: raises \<^verbatim>\<open>OverflowError\<close> on a negative
  value and on one that does not fit.\<close>

fun le_bytes :: "nat \<Rightarrow> nat \<Rightarrow> bytes" where
  "le_bytes 0 n = []"
| "le_bytes (Suc k) n = of_nat (n mod 256) # le_bytes k (n div 256)"

definition to_bytes :: "int \<Rightarrow> nat \<Rightarrow> error + bytes" where
  "to_bytes i len = (if i < 0 \<or> 256 ^ len \<le> i then Inl OverflowError else Inr (le_bytes len (nat i)))"

definition var_int :: "int \<Rightarrow> error + bytes" where
  "var_int i =
     (if i < 0xfd then to_bytes i 1
      else if i \<le> 0xffff then bind_err (to_bytes i 2) (\<lambda>b. Inr (0xfd # b))
      else if i \<le> 0xffffffff then bind_err (to_bytes i 4) (\<lambda>b. Inr (0xfe # b))
      else bind_err (to_bytes i 8) (\<lambda>b. Inr (0xff # b)))"

definition op_push :: "int \<Rightarrow> error + bytes" where
  "op_push i =
     (if i < 0x4c then to_bytes i 1
      else if i \<le> 0xff then bind_err (to_bytes i 1) (\<lambda>b. Inr (0x4c # b))
      else if i \<le> 0xffff then bind_err (to_bytes i 2) (\<lambda>b. Inr (0x4d # b))
      else bind_err (to_bytes i 4) (\<lambda>b. Inr (0x4e # b)))"

definition OP_RETURN :: bytes where "OP_RETURN = [0x6a]"
definition OP_DUP :: bytes where "OP_DUP = [0x76]"
definition OP_HASH160 :: bytes where "OP_HASH160 = [0xa9]"
definition OP_EQUALVERIFY :: bytes where "OP_EQUALVERIFY = [0x88]"
definition OP_CHECKSIG :: bytes where "OP_CHECKSIG = [0xac]"
definition OP_1 :: bytes where "OP_1 = [0x51]"
definition OP_2 :: bytes where "OP_2 = [0x52]"
definition OP_CHECKMULTISIG :: bytes where "OP_CHECKMULTISIG = [0xae]"

section \<open>Configuration, the node and the calls made to it\<close>

text \<open>
  The module \<^verbatim>\<open>lib/config.py\<close> holds the constants read here; they are the fields of
  \<open>config\<close>. An unspent coin is the dictionary the node returns for \<^verbatim>\<open>listunspent\<close>; its
  amount is a JSON number in whole coins, which Python holds as a double: \<open>coin_amount\<close> is the
  value of that double.
\<close>

record config =
  ADDRESSVERSION :: bytes
  MULTISIG_DUST_SIZE :: int
  REGULAR_DUST_SIZE :: int
  OP_RETURN_VALUE :: int
  UNIT :: int
  PREFIX :: bytes
  UNITTEST_PREFIX :: bytes
  TESTNET :: bool

record coin =
  coin_address :: string
  coin_txid :: string
  coin_vout :: int
  coin_scriptPubKey :: string
  coin_amount :: rat

text \<open>
  What lies outside the module: the replies of the node to the three calls that the
  transaction builder makes through \<^verbatim>\<open>rpc\<close> (each may raise instead) and the contents of the
  file \<^verbatim>\<open>test/listunspent.test.json\<close> are the fields of \<open>world\<close>. So is the double precision
  arithmetic of the Python runtime, which is not modelled: \<open>round_amount w a u\<close> is what
  \<^verbatim>\<open>round(a * u)\<close> gives for the double \<open>a\<close> and the integer \<open>u\<close>. The functions of the pycoin
  library that turn a public key string, or a private key in wallet import format, into a
  serialised public key are the fields of \<open>pycoin\<close>.
\<close>

record world =
  validateaddress_ismine :: "string \<Rightarrow> error + bool"
  listunspent :: "error + coin list"
  dumpprivkey :: "string \<Rightarrow> error + string"
  listunspent_test_file :: "coin list"
  round_amount :: "rat \<Rightarrow> int \<Rightarrow> int"

record pycoin =
  pubkey_of_string :: "string \<Rightarrow> error + bytes"
  pubkey_of_wif :: "string \<Rightarrow> error + bytes"

datatype rpc_call = RpcCall string "string list"

text \<open>A computation that may call the node: its result, and the calls it made, in order.\<close>

type_synonym 'a io = "(error + 'a) \<times> rpc_call list"

definition io_bind :: "'a io \<Rightarrow> ('a \<Rightarrow> 'b io) \<Rightarrow> 'b io" where
  "io_bind m f =
     (case m of
        (Inl e, l) \<Rightarrow> (Inl e, l)
      | (Inr x, l) \<Rightarrow> (case f x of (r, l') \<Rightarrow> (r, l @ l')))"

definition no_rpc :: "error + 'a \<Rightarrow> 'a io" where
  "no_rpc r = (r, [])"

definition rpc_validateaddress :: "world \<Rightarrow> string \<Rightarrow> bool io" where
  "rpc_validateaddress w a = (validateaddress_ismine w a, [RpcCall ''validateaddress'' [a]])"

definition rpc_listunspent :: "world \<Rightarrow> coin list io" where
  "rpc_listunspent w = (listunspent w, [RpcCall ''listunspent'' []])"

definition rpc_dumpprivkey :: "world \<Rightarrow> string \<Rightarrow> string io" where
  "rpc_dumpprivkey w a = (dumpprivkey w a, [RpcCall ''dumpprivkey'' [a]])"

text \<open>The \<^verbatim>\<open>multisig\<close> argument is \<^verbatim>\<open>False\<close>, \<^verbatim>\<open>True\<close> or a public key string.\<close>

datatype multisig = MsBool bool | MsStr string

fun truthy_multisig :: "multisig \<Rightarrow> bool" where
  "truthy_multisig (MsBool b) = b"
| "truthy_multisig (MsStr s) = (s \<noteq> [])"

fun isinstance_str :: "multisig \<Rightarrow> bool" where
  "isinstance_str (MsBool b) = False"
| "isinstance_str (MsStr s) = True"

text \<open>Truth values of an optional string, byte string and amount: \<^verbatim>\<open>None\<close>, the empty
  string and zero are false.\<close>

fun truthy :: "'a list option \<Rightarrow> bool" where
  "truthy None = False"
| "truthy (Some s) = (s \<noteq> [])"

fun truthy_amount :: "int option \<Rightarrow> bool" where
  "truthy_amount None = False"
| "truthy_amount (Some a) = (a \<noteq> 0)"

text \<open>\<^verbatim>\<open>str.encode\<close>, and rounding to the nearest integer, a tie to the even one, as Python's
  \<^verbatim>\<open>round\<close> does on a value it holds exactly.\<close>

definition str_encode :: "string \<Rightarrow> bytes" where
  "str_encode s = map (\<lambda>c. of_nat (of_char c)) s"

definition py_round :: "rat \<Rightarrow> int" where
  "py_round x =
     (let f = \<lfloor>x\<rfloor>; d = x - of_int f
      in if d < 1 / 2 then f else if 1 / 2 < d then f + 1 else if even f then f else f + 1)"


section \<open>The transaction serialiser\<close>

text \<open>The loop over the inputs of \<^verbatim>\<open>serialise\<close>: transaction hash reversed, output index,
  length of the script, the script (the characters of the \<^verbatim>\<open>scriptPubKey\<close> string) and the
  sequence number.\<close>

definition serialise_input :: "coin \<Rightarrow> error + bytes" where
  "serialise_input txin =
     bind_err (unhexlify (coin_txid txin)) (\<lambda>h.
     bind_err (to_bytes (coin_vout txin) 4) (\<lambda>i.
     let script = str_encode (coin_scriptPubKey txin) in
     bind_err (var_int (int (length script))) (\<lambda>l.
     Inr (rev h @ i @ l @ script @ replicate 4 0xff))))"

fun serialise_inputs :: "coin list \<Rightarrow> error + bytes" where
  "serialise_inputs [] = Inr []"
| "serialise_inputs (txin # inputs) =
     bind_err (serialise_input txin) (\<lambda>s.
     bind_err (serialise_inputs inputs) (\<lambda>r. Inr (s @ r)))"

text \<open>The destination output and the change output are written by the same lines of
  \<^verbatim>\<open>serialise\<close>: the address is decoded, then value, script length and the
  pay-to-pubkey-hash script follow.\<close>

definition address_output :: "config \<Rightarrow> string \<times> int \<Rightarrow> error + bytes" where
  "address_output cfg out =
     (case out of (address, value) \<Rightarrow>
        bind_err (base58_decode address (ADDRESSVERSION cfg)) (\<lambda>pubkeyhash.
        bind_err (to_bytes value 8) (\<lambda>v.
        bind_err (op_push 20) (\<lambda>p.
        let script = OP_DUP @ OP_HASH160 @ p @ pubkeyhash @ OP_EQUALVERIFY @ OP_CHECKSIG in
        bind_err (var_int (int (length script))) (\<lambda>l.
        Inr (v @ l @ script))))))"

text \<open>The source public key of a multi-signature data output: parsed from the string, or
  derived from the private key, which is a fixed test key under the unit test prefix and is
  asked of the node with \<^verbatim>\<open>dumpprivkey\<close> otherwise.\<close>

definition source_pubkey :: "config \<Rightarrow> pycoin \<Rightarrow> world \<Rightarrow> string \<Rightarrow> multisig \<Rightarrow> bytes io" where
  "source_pubkey cfg lib w source multisig =
     (case multisig of
        MsStr key \<Rightarrow> no_rpc (pubkey_of_string lib key)
      | MsBool b \<Rightarrow>
          io_bind
            (if PREFIX cfg = UNITTEST_PREFIX cfg
             then no_rpc (Inr ''cPdUqd5EbBWsjcG9xiL1hz8bEyGFiz4SW99maU9JgpL9TEcxUf3j'')
             else rpc_dumpprivkey w source)
            (\<lambda>private_key_wif. no_rpc (pubkey_of_wif lib private_key_wif)))"

definition multisig_script :: "bytes \<Rightarrow> bytes \<Rightarrow> error + bytes" where
  "multisig_script pubkey data_chunk =
     (if 33 - 1 - int (length data_chunk) < 0 then Inl AssertionError
      else
        let data_pubkey = [of_nat (length data_chunk)] @ data_chunk
              @ replicate (33 - 1 - length data_chunk) 0 in
        bind_err (op_push (int (length pubkey))) (\<lambda>p1.
        bind_err (op_push (int (length data_pubkey))) (\<lambda>p2.
        Inr (OP_1 @ p1 @ pubkey @ p2 @ data_pubkey @ OP_2 @ OP_CHECKMULTISIG))))"

definition op_return_script :: "bytes \<Rightarrow> error + bytes" where
  "op_return_script data_chunk =
     bind_err (op_push (int (length data_chunk))) (\<lambda>p. Inr (OP_RETURN @ p @ data_chunk))"

definition data_output_bytes ::
  "config \<Rightarrow> pycoin \<Rightarrow> world \<Rightarrow> string \<Rightarrow> multisig \<Rightarrow> int \<Rightarrow> bytes \<Rightarrow> bytes io" where
  "data_output_bytes cfg lib w source multisig value data_chunk =
     io_bind (no_rpc (to_bytes value 8)) (\<lambda>v.
     io_bind
       (if truthy_multisig multisig
        then io_bind (source_pubkey cfg lib w source multisig)
               (\<lambda>pubkey. no_rpc (multisig_script pubkey data_chunk))
        else no_rpc (op_return_script data_chunk))
       (\<lambda>script.
     io_bind (no_rpc (var_int (int (length script)))) (\<lambda>l.
     no_rpc (Inr (v @ l @ script)))))"

fun data_outputs ::
  "config \<Rightarrow> pycoin \<Rightarrow> world \<Rightarrow> string \<Rightarrow> multisig \<Rightarrow> int \<Rightarrow> bytes list \<Rightarrow> bytes io" where
  "data_outputs cfg lib w source multisig value [] = no_rpc (Inr [])"
| "data_outputs cfg lib w source multisig value (data_chunk # data_array) =
     io_bind (data_output_bytes cfg lib w source multisig value data_chunk) (\<lambda>s.
     io_bind (data_outputs cfg lib w source multisig value data_array) (\<lambda>r.
     no_rpc (Inr (s @ r))))"

definition serialise ::
  "config \<Rightarrow> pycoin \<Rightarrow> world \<Rightarrow> coin list \<Rightarrow> (string \<times> int) option \<Rightarrow> (bytes list \<times> int) option
     \<Rightarrow> (string \<times> int) option \<Rightarrow> string \<Rightarrow> multisig \<Rightarrow> bytes io" where
  "serialise cfg lib w inputs destination_output data_output change_output source multisig =
     io_bind (no_rpc (to_bytes 1 4)) (\<lambda>version.
     io_bind (no_rpc (var_int (int (length inputs)))) (\<lambda>n_in.
     io_bind (no_rpc (serialise_inputs inputs)) (\<lambda>ins.
     let data_array = (case data_output of Some (data_array, value) \<Rightarrow> data_array | None \<Rightarrow> []);
         value = (case data_output of Some (data_array, value) \<Rightarrow> value | None \<Rightarrow> 0);
         n = (if destination_output \<noteq> None then 1 else 0) + int (length data_array)
               + (if change_output \<noteq> None then 1 else 0) in
     io_bind (no_rpc (var_int n)) (\<lambda>n_out.
     io_bind (no_rpc (case destination_output of None \<Rightarrow> Inr []
                       | Some out \<Rightarrow> address_output cfg out)) (\<lambda>dest.
     io_bind (data_outputs cfg lib w source multisig value data_array) (\<lambda>datas.
     io_bind (no_rpc (case change_output of None \<Rightarrow> Inr []
                       | Some out \<Rightarrow> address_output cfg out)) (\<lambda>change.
     io_bind (no_rpc (to_bytes 0 4)) (\<lambda>locktime.
     no_rpc (Inr (version @ n_in @ ins @ n_out @ dest @ datas @ change @ locktime))))))))))"


section \<open>Coin selection\<close>

text \<open>The loop of \<^verbatim>\<open>get_inputs\<close>: every coin is appended and its rounded amount added
  before the total is compared; running off the end of the list gives \<^verbatim>\<open>(None, None)\<close>.\<close>

fun select_coins ::
  "config \<Rightarrow> world \<Rightarrow> int \<Rightarrow> coin list \<Rightarrow> int \<Rightarrow> coin list \<Rightarrow> (coin list \<times> int) option" where
  "select_coins cfg w total_btc_out inputs total_btc_in [] = None"
| "select_coins cfg w total_btc_out inputs total_btc_in (c # unspent) =
     (let inputs = inputs @ [c];
          total_btc_in = total_btc_in + round_amount w (coin_amount c) (UNIT cfg)
      in if total_btc_in \<ge> total_btc_out then Some (inputs, total_btc_in)
         else select_coins cfg w total_btc_out inputs total_btc_in unspent)"

text \<open>Where the coins come from. For an address that is not in the wallet and a
  configuration that is not on the test network, the source calls
  \<^verbatim>\<open>get_unspent_txouts(address, normalize=True)\<close> with a name that is not bound in
  \<^verbatim>\<open>get_inputs\<close>, which raises \<^verbatim>\<open>NameError\<close>.\<close>

definition fetch_listunspent :: "config \<Rightarrow> world \<Rightarrow> string \<Rightarrow> bool \<Rightarrow> coin list io" where
  "fetch_listunspent cfg w source unittest =
     (if \<not> unittest then
        io_bind (rpc_validateaddress w source) (\<lambda>ismine.
          if ismine then rpc_listunspent w
          else if TESTNET cfg
            then no_rpc (Inl (TransactionError ''Blockchain.info does not support testnet.''))
            else no_rpc (Inl NameError))
      else no_rpc (Inr (listunspent_test_file w)))"

definition get_inputs ::
  "config \<Rightarrow> world \<Rightarrow> string \<Rightarrow> int \<Rightarrow> bool \<Rightarrow> (coin list \<times> int) option io" where
  "get_inputs cfg w source total_btc_out unittest =
     io_bind (fetch_listunspent cfg w source unittest) (\<lambda>listunspent.
       let unspent = filter (\<lambda>coin. coin_address coin = source) listunspent
       in no_rpc (Inr (select_coins cfg w total_btc_out [] 0 unspent)))"

section \<open>The transaction builder\<close>

text \<open>The blocks of \<^verbatim>\<open>transaction\<close>, in the order of the source. Address validation turns
  every failure of \<^verbatim>\<open>base58_decode\<close> into \<^verbatim>\<open>InvalidAddressError\<close>.\<close>

definition validate_address :: "config \<Rightarrow> string option \<Rightarrow> error + unit" where
  "validate_address cfg address =
     (if truthy address then
        (case base58_decode (the address) (ADDRESSVERSION cfg) of
           Inl e \<Rightarrow> Inl (InvalidAddressError ''Invalid Bitcoin address:'' (the address))
         | Inr d \<Rightarrow> Inr ())
      else Inr ())"

definition validate_addresses :: "config \<Rightarrow> string \<Rightarrow> string option \<Rightarrow> error + unit" where
  "validate_addresses cfg source destination =
     bind_err (validate_address cfg (Some source)) (\<lambda>_. validate_address cfg destination)"

definition check_wallet :: "world \<Rightarrow> string \<Rightarrow> multisig \<Rightarrow> bool \<Rightarrow> unit io" where
  "check_wallet w source multisig unittest =
     (if \<not> unittest \<and> \<not> isinstance_str multisig then
        io_bind (rpc_validateaddress w source) (\<lambda>ismine.
          if \<not> ismine
          then no_rpc (Inl (InvalidAddressError ''Not one of your Bitcoin addresses:'' source))
          else no_rpc (Inr ()))
      else no_rpc (Inr ()))"

text \<open>The dust check returns the amount, which it sets to the dust size when there is a
  destination and no amount.\<close>

definition check_dust ::
  "config \<Rightarrow> string option \<Rightarrow> int option \<Rightarrow> multisig \<Rightarrow> error + int option" where
  "check_dust cfg destination btc_amount multisig =
     (if truthy destination then
        (let dust = (if truthy_multisig multisig then MULTISIG_DUST_SIZE cfg
                     else REGULAR_DUST_SIZE cfg);
             btc_amount = (if btc_amount = None then dust else the btc_amount)
         in if \<not> btc_amount \<ge> dust
            then Inl (TransactionError ''Destination output is below the dust target value.'')
            else Inr (Some btc_amount))
      else if truthy_amount btc_amount then Inl AssertionError
      else Inr btc_amount)"

definition divide_data :: "bytes option \<Rightarrow> multisig \<Rightarrow> error + bytes list" where
  "divide_data data multisig =
     (if truthy data then
        (if truthy_multisig multisig then Inr (chunks (33 - 1) (the data))
         else let data_array = chunks 80 (the data)
              in if length data_array \<noteq> 1 then Inl AssertionError else Inr data_array)
      else Inr [])"

text \<open>The rest of \<^verbatim>\<open>transaction\<close>, from the division of the data into chunks to the
  hexadecimal string of the serialised transaction. The message of \<^verbatim>\<open>BalanceError\<close> names the
  source and the total needed divided by the unit; \<open>BalanceError\<close> holds the source and that
  total, and the division raises when the unit is zero.\<close>

definition transaction_body ::
  "config \<Rightarrow> pycoin \<Rightarrow> world \<Rightarrow> string \<Rightarrow> string option \<Rightarrow> int option \<Rightarrow> int \<Rightarrow> bytes option
     \<Rightarrow> multisig \<Rightarrow> bool \<Rightarrow> string io" where
  "transaction_body cfg lib w source destination btc_amount fee data multisig unittest =
     io_bind (no_rpc (divide_data data multisig)) (\<lambda>data_array.
     let data_value = (if truthy_multisig multisig then MULTISIG_DUST_SIZE cfg
                       else OP_RETURN_VALUE cfg);
         total_btc_out = fee + int (length data_array) * data_value
                           + (if truthy destination then the btc_amount else 0) in
     io_bind (get_inputs cfg w source total_btc_out unittest) (\<lambda>selected.
       case selected of
         None \<Rightarrow> no_rpc (if UNIT cfg = 0 then Inl ZeroDivisionError
                         else Inl (BalanceError source total_btc_out))
       | Some (inputs, total_btc_in) \<Rightarrow>
           let destination_output =
                 (if truthy destination then Some (the destination, the btc_amount) else None);
               data_output = (if truthy data then Some (data_array, data_value) else None);
               change_amount = total_btc_in - total_btc_out;
               change_output = (if change_amount \<noteq> 0 then Some (source, change_amount) else None)
           in io_bind (serialise cfg lib w inputs destination_output data_output change_output
                         source multisig)
                (\<lambda>tx. no_rpc (Inr (hexlify tx)))))"

definition transaction ::
  "config \<Rightarrow> pycoin \<Rightarrow> world \<Rightarrow> string \<times> string option \<times> int option \<times> int \<times> bytes option
     \<Rightarrow> multisig \<Rightarrow> bool \<Rightarrow> string io" where
  "transaction cfg lib w tx_info multisig unittest =
     (case tx_info of (source, destination, btc_amount, fee, data) \<Rightarrow>
      let unittest = (if PREFIX cfg = UNITTEST_PREFIX cfg then True else unittest) in
      io_bind (no_rpc (validate_addresses cfg source destination)) (\<lambda>_.
      io_bind (check_wallet w source multisig unittest) (\<lambda>_.
      io_bind (no_rpc (check_dust cfg destination btc_amount multisig)) (\<lambda>btc_amount.
      transaction_body cfg lib w source destination btc_amount fee data multisig unittest))))"

section \<open>The specification's reading of coin selection\<close>

text \<open>The amount of a list of coins in the smallest unit, as \<^verbatim>\<open>get_inputs\<close> adds it up.\<close>

definition units :: "config \<Rightarrow> world \<Rightarrow> coin list \<Rightarrow> int" where
  "units cfg w cs = sum_list (map (\<lambda>c. round_amount w (coin_amount c) (UNIT cfg)) cs)"

text \<open>
  In the words of the specification: the shortest prefix of the coin list whose sum reaches
  the required total, together with that sum. \<open>prefixes\<close> lists the prefixes from the
  shortest to the longest, the empty one first.
\<close>

definition shortest_prefix :: "config \<Rightarrow> world \<Rightarrow> int \<Rightarrow> coin list \<Rightarrow> (coin list \<times> int) option" where
  "shortest_prefix cfg w required_total cs =
     map_option (\<lambda>p. (p, units cfg w p)) (find (\<lambda>p. required_total \<le> units cfg w p) (prefixes cs))"

text \<open>The same over the prefixes that hold at least one coin.\<close>

definition shortest_nonempty_prefix ::
  "config \<Rightarrow> world \<Rightarrow> int \<Rightarrow> coin list \<Rightarrow> (coin list \<times> int) option" where
  "shortest_nonempty_prefix cfg w required_total cs =
     map_option (\<lambda>p. (p, units cfg w p))
       (find (\<lambda>p. required_total \<le> units cfg w p) (tl (prefixes cs)))"

section \<open>A concrete configuration, node and wallet\<close>

text \<open>
  Values on which the definitions are run: the main network version byte, the dust sizes
  and unit of the reference configuration, a node that owns every address and reports three
  coins, of which the first and the last belong to \<open>example_source\<close>. The amounts are
  dyadic fractions, which a double holds exactly and whose products with the unit are exact
  in double precision, so that rounding the exact product is what the runtime computes.
\<close>

definition example_config :: config where
  "example_config = \<lparr> ADDRESSVERSION = [0], MULTISIG_DUST_SIZE = 10860, REGULAR_DUST_SIZE = 5430,
     OP_RETURN_VALUE = 0, UNIT = 100000000, PREFIX = str_encode ''CNTRPRTY'',
     UNITTEST_PREFIX = str_encode ''TESTXXXX'', TESTNET = False \<rparr>"

definition example_source :: string where
  "example_source = ''16L5yRNPTuciSgXGHqYwn9N6NeoKqopAu''"

definition example_destination :: string where
  "example_destination = ''12q9MtEDk2FRRZLpwRk7ReLYo5e8SGhTvc''"

definition example_coins :: "coin list" where
  "example_coins =
     [\<lparr> coin_address = example_source, coin_txid = ''aa01'', coin_vout = 0,
        coin_scriptPubKey = ''76a9'', coin_amount = 1 / 256 \<rparr>,
      \<lparr> coin_address = example_destination, coin_txid = ''bb02'', coin_vout = 1,
        coin_scriptPubKey = ''76a9'', coin_amount = 5 \<rparr>,
      \<lparr> coin_address = example_source, coin_txid = ''cc03'', coin_vout = 2,
        coin_scriptPubKey = ''76a9'', coin_amount = 1 / 128 \<rparr>]"

definition example_world :: world where
  "example_world = \<lparr> validateaddress_ismine = (\<lambda>a. Inr True), listunspent = Inr example_coins,
     dumpprivkey = (\<lambda>a. Inr ''KEY''), listunspent_test_file = example_coins,
     round_amount = (\<lambda>a u. py_round (a * of_int u)) \<rparr>"

definition example_pycoin :: pycoin where
  "example_pycoin = \<lparr> pubkey_of_string = (\<lambda>s. Inr (2 # replicate 32 7)),
     pubkey_of_wif = (\<lambda>s. Inr (3 # replicate 32 9)) \<rparr>"

section \<open>The specification's reading of the serialised transaction\<close>

text \<open>
  In the words of the specification, an output is a destination, an embedded data chunk or
  the change, and a raw transaction is
  \<^verbatim>\<open>version || varint(#inputs) || inputs || varint(#outputs) || outputs || locktime\<close>, each
  output written as \<^verbatim>\<open>value || varint(len(script)) || script\<close> in the order of the list.
  The scripts are those of the source: pay-to-pubkey-hash for an address, and for a data
  chunk the one-of-two multi-signature script or the \<^verbatim>\<open>OP_RETURN\<close> script of the embedding
  mode.
\<close>

datatype tx_output = Destination string int | DataEmbed bytes int | Change string int

definition embed_script ::
  "config \<Rightarrow> pycoin \<Rightarrow> world \<Rightarrow> string \<Rightarrow> multisig \<Rightarrow> bytes \<Rightarrow> error + bytes" where
  "embed_script cfg lib w source multisig chunk =
     (if truthy_multisig multisig
      then bind_err (fst (source_pubkey cfg lib w source multisig)) (\<lambda>pubkey. multisig_script pubkey chunk)
      else op_return_script chunk)"

fun output_bytes ::
  "config \<Rightarrow> pycoin \<Rightarrow> world \<Rightarrow> string \<Rightarrow> multisig \<Rightarrow> tx_output \<Rightarrow> error + bytes" where
  "output_bytes cfg lib w source multisig (Destination address amount) =
     address_output cfg (address, amount)"
| "output_bytes cfg lib w source multisig (DataEmbed chunk amount) =
     bind_err (to_bytes amount 8) (\<lambda>v.
     bind_err (embed_script cfg lib w source multisig chunk) (\<lambda>script.
     bind_err (var_int (int (length script))) (\<lambda>l.
     Inr (v @ l @ script))))"
| "output_bytes cfg lib w source multisig (Change address amount) =
     address_output cfg (address, amount)"

fun outputs_bytes ::
  "config \<Rightarrow> pycoin \<Rightarrow> world \<Rightarrow> string \<Rightarrow> multisig \<Rightarrow> tx_output list \<Rightarrow> error + bytes" where
  "outputs_bytes cfg lib w source multisig [] = Inr []"
| "outputs_bytes cfg lib w source multisig (out # outs) =
     bind_err (output_bytes cfg lib w source multisig out) (\<lambda>s.
     bind_err (outputs_bytes cfg lib w source multisig outs) (\<lambda>r. Inr (s @ r)))"

definition raw_transaction ::
  "config \<Rightarrow> pycoin \<Rightarrow> world \<Rightarrow> string \<Rightarrow> multisig \<Rightarrow> coin list \<Rightarrow> tx_output list \<Rightarrow> error + bytes" where
  "raw_transaction cfg lib w source multisig inputs outs =
     bind_err (to_bytes 1 4) (\<lambda>version.
     bind_err (var_int (int (length inputs))) (\<lambda>n_in.
     bind_err (serialise_inputs inputs) (\<lambda>ins.
     bind_err (var_int (int (length outs))) (\<lambda>n_out.
     bind_err (outputs_bytes cfg lib w source multisig outs) (\<lambda>os.
     bind_err (to_bytes 0 4) (\<lambda>locktime.
     Inr (version @ n_in @ ins @ n_out @ os @ locktime)))))))"

definition example_data :: bytes where
  "example_data = [67, 78, 84, 82, 80, 82, 84, 89, 0, 10]"

section \<open>Hexadecimal strings and big-endian values\<close>

lemma hexval_hex_digits: "x < 16 \<Longrightarrow> hexval (hex_digits ! x) = Some x"
proof -
  have "list_all (\<lambda>x. hexval (hex_digits ! x) = Some x) [0..<16]"
    by code_simp
  then show "x < 16 \<Longrightarrow> hexval (hex_digits ! x) = Some x" by (simp add: list_all_iff)
qed

lemma unat_byte_div16: "unat (b::byte) div 16 < 16"
proof -
  have "unat b < 256" using unsigned_less [of b] by simp
  then show ?thesis by simp
qed

lemma int16_hexlify_fold:
  "foldl (\<lambda>n c. 16 * n + (case hexval c of Some d \<Rightarrow> d | None \<Rightarrow> 0)) a (hexlify bs)
     = foldl (\<lambda>a b. a * 256 + unat b) a bs"
proof (induction bs arbitrary: a)
  case Nil
  then show ?case by simp
next
  case (Cons b bs)
  have e: "16 * (16 * a + unat b div 16) + unat b mod 16 = a * 256 + unat b" by simp
  have "foldl (\<lambda>n c. 16 * n + (case hexval c of Some d \<Rightarrow> d | None \<Rightarrow> 0)) a (hexlify (b # bs))
      = foldl (\<lambda>n c. 16 * n + (case hexval c of Some d \<Rightarrow> d | None \<Rightarrow> 0))
          (16 * (16 * a + unat b div 16) + unat b mod 16) (hexlify bs)"
    by (simp add: hexval_hex_digits unat_byte_div16)
  also have "\<dots> = foldl (\<lambda>a b. a * 256 + unat b) (a * 256 + unat b) bs"
    by (simp only: e Cons.IH)
  finally show ?case by simp
qed

lemma int16_hexlify: "int16 (CHR ''0'' # hexlify bs) = be_word bs"
proof -
  have z: "hexval CHR ''0'' = Some 0" by (simp add: hexval_def)
  show ?thesis
    unfolding int16_def be_word_def using int16_hexlify_fold [of 0 bs] by (simp add: z)
qed

lemma unhexlify_hexlify: "unhexlify (hexlify bs) = Inr bs"
proof (induction bs)
  case Nil
  then show ?case by simp
next
  case (Cons b bs)
  have "(of_nat (16 * (unat b div 16) + unat b mod 16) :: byte) = b" by simp
  then show ?case
    by (simp add: Cons.IH hexval_hex_digits unat_byte_div16)
qed

lemma percent_x_step:
  assumes "0 < m" "d < 16"
  shows "percent_x (m * 16 + d) = percent_x m @ [hex_digits ! d]"
proof -
  have "\<not> m * 16 + d < 16" using assms by simp
  moreover have "(m * 16 + d) div 16 = m" "(m * 16 + d) mod 16 = d" using assms by simp_all
  ultimately show ?thesis by (subst percent_x.simps) simp
qed

lemma percent_x_byte:
  assumes "0 < m"
  shows "percent_x (m * 256 + unat (b::byte))
           = percent_x m @ [hex_digits ! (unat b div 16), hex_digits ! (unat b mod 16)]"
proof -
  have e: "m * 256 + unat b = (m * 16 + unat b div 16) * 16 + unat b mod 16" by simp
  have p: "0 < m * 16 + unat b div 16" using assms by simp
  have "percent_x (m * 256 + unat b) = percent_x ((m * 16 + unat b div 16) * 16 + unat b mod 16)"
    by (simp only: e)
  also have "\<dots> = percent_x (m * 16 + unat b div 16) @ [hex_digits ! (unat b mod 16)]"
    by (rule percent_x_step [OF p]) simp
  also have "percent_x (m * 16 + unat b div 16) = percent_x m @ [hex_digits ! (unat b div 16)]"
    by (rule percent_x_step [OF assms unat_byte_div16])
  finally show ?thesis by simp
qed

lemma percent_x_fold:
  "0 < n \<Longrightarrow> percent_x (foldl (\<lambda>a b. a * 256 + unat b) n bs) = percent_x n @ hexlify bs"
proof (induction bs arbitrary: n)
  case Nil
  then show ?case by simp
next
  case (Cons b bs)
  have "0 < n * 256 + unat b" using Cons.prems by simp
  then show ?case using Cons.prems by (simp add: Cons.IH percent_x_byte)
qed

lemma length_hexlify: "length (hexlify bs) = 2 * length bs"
  by (induction bs) simp_all

text \<open>The padded numeral of a byte string without leading zero byte is its hexlify.\<close>
lemma percent_x_be_word:
  assumes "b \<noteq> 0"
  shows "(let h = percent_x (be_word (b # bs)) in if length h mod 2 \<noteq> 0 then ''0'' @ h else h)
           = hexlify (b # bs)"
proof -
  have pos: "0 < unat b" using assms by (simp add: unat_gt_0)
  have f: "percent_x (be_word (b # bs)) = percent_x (unat b) @ hexlify bs"
    unfolding be_word_def using percent_x_fold [OF pos, of bs] by simp
  show ?thesis
  proof (cases "unat b < 16")
    case True
    then have "percent_x (unat b) = [hex_digits ! unat b]" by (subst percent_x.simps) simp
    moreover have "hex_digits ! (unat b div 16) = CHR ''0''" using True by (simp add: hex_digits_def)
    ultimately show ?thesis using True by (simp add: f length_hexlify Let_def)
  next
    case False
    have "unat b = (unat b div 16) * 16 + unat b mod 16" by simp
    moreover have "0 < unat b div 16" using False by simp
    ultimately have "percent_x (unat b) = percent_x (unat b div 16) @ [hex_digits ! (unat b mod 16)]"
      using percent_x_step [of "unat b div 16" "unat b mod 16"] by simp
    moreover have "percent_x (unat b div 16) = [hex_digits ! (unat b div 16)]"
      using unat_byte_div16 [of b] by (subst percent_x.simps) simp
    ultimately show ?thesis by (simp add: f length_hexlify Let_def)
  qed
qed

section \<open>Base-58 digits\<close>

lemma b58_digit_facts:
  assumes "r < 58"
  shows "b58_digits ! r \<in> set b58_digits" and "index_of (b58_digits ! r) b58_digits = r"
    and "0 < r \<Longrightarrow> b58_digits ! r \<noteq> b58_digits ! 0"
proof -
  have "list_all (\<lambda>r. b58_digits ! r \<in> set b58_digits \<and> index_of (b58_digits ! r) b58_digits = r
          \<and> (0 < r \<longrightarrow> b58_digits ! r \<noteq> b58_digits ! 0)) [0..<58]"
    by code_simp
  then have "b58_digits ! r \<in> set b58_digits \<and> index_of (b58_digits ! r) b58_digits = r
          \<and> (0 < r \<longrightarrow> b58_digits ! r \<noteq> b58_digits ! 0)"
    using assms by (simp add: list_all_iff)
  then show "b58_digits ! r \<in> set b58_digits" and "index_of (b58_digits ! r) b58_digits = r"
    and "0 < r \<Longrightarrow> b58_digits ! r \<noteq> b58_digits ! 0"
    by simp_all
qed

lemma b58_to_nat_snoc:
  "b58_to_nat a (s @ [c]) =
     (case b58_to_nat a s of
        Inl e \<Rightarrow> Inl e
      | Inr m \<Rightarrow> if c \<notin> set b58_digits then Inl (InvalidBase58Error c)
                 else Inr (m * 58 + index_of c b58_digits))"
  by (induction s arbitrary: a) simp_all

lemma b58_to_nat_of_nat: "b58_to_nat 0 (b58_of_nat n) = Inr n"
proof (induction n rule: b58_of_nat.induct)
  case (1 n)
  show ?case
  proof (cases "n = 0")
    case True
    then show ?thesis by (simp add: b58_of_nat.simps)
  next
    case False
    have r: "n mod 58 < 58" by simp
    have "b58_of_nat n = b58_of_nat (n div 58) @ [b58_digits ! (n mod 58)]"
      using False by (subst b58_of_nat.simps) simp
    then show ?thesis
      using 1 [OF False] b58_digit_facts(1,2) [OF r] by (simp add: b58_to_nat_snoc)
  qed
qed

lemma b58_to_nat_leading_ones:
  "b58_to_nat 0 (replicate p (b58_digits ! 0) @ s) = b58_to_nat 0 s"
proof (induction p)
  case 0
  then show ?case by simp
next
  case (Suc p)
  have "b58_digits ! 0 \<in> set b58_digits" "index_of (b58_digits ! 0) b58_digits = 0"
    using b58_digit_facts(1,2) [of 0] by simp_all
  then show ?case using Suc by simp
qed

lemma b58_of_nat_hd:
  "0 < n \<Longrightarrow> b58_of_nat n \<noteq> [] \<and> hd (b58_of_nat n) \<noteq> b58_digits ! 0"
proof (induction n rule: b58_of_nat.induct)
  case (1 n)
  have ne: "n \<noteq> 0" using 1 by simp
  have u: "b58_of_nat n = b58_of_nat (n div 58) @ [b58_digits ! (n mod 58)]"
    using ne by (subst b58_of_nat.simps) simp
  show ?case
  proof (cases "n div 58 = 0")
    case True
    then have "n mod 58 = n" by (simp add: div_eq_0_iff)
    then have "0 < n mod 58" "n mod 58 < 58" using ne by simp_all
    then have "b58_digits ! (n mod 58) \<noteq> b58_digits ! 0" using b58_digit_facts(3) by blast
    moreover have "b58_of_nat (n div 58) = []" using True by (simp add: b58_of_nat.simps)
    ultimately show ?thesis using u by simp
  next
    case False
    then have "b58_of_nat (n div 58) \<noteq> [] \<and> hd (b58_of_nat (n div 58)) \<noteq> b58_digits ! 0"
      using 1 ne by simp
    then show ?thesis using u by simp
  qed
qed

lemma takeWhile_pad:
  assumes "s \<noteq> []" "hd s \<noteq> c"
  shows "takeWhile (\<lambda>x. x = c) (butlast (replicate p c @ s)) = replicate p c"
proof -
  have b: "butlast (replicate p c @ s) = replicate p c @ butlast s"
    using assms by (simp add: butlast_append)
  have "takeWhile (\<lambda>x. x = c) (butlast s) = []"
  proof (cases "butlast s")
    case Nil
    then show ?thesis by simp
  next
    case (Cons x xs)
    then have "x = hd s" using assms by (cases s) (auto split: if_splits)
    then show ?thesis using Cons assms by simp
  qed
  moreover have "takeWhile (\<lambda>x. x = c) (replicate p c @ butlast s)
      = replicate p c @ takeWhile (\<lambda>x. x = c) (butlast s)"
    by (rule takeWhile_append2) simp
  ultimately show ?thesis
    by (simp add: b)
qed

section \<open>Length of the hash and the bytes of an encoded string\<close>

lemma list8: "length s = 8 \<Longrightarrow> \<exists>a b c d e f g h. s = [a, b, c, d, e, f, g, h]"
  by (auto simp: eval_nat_numeral length_Suc_conv)

lemma length_round_step: "length s = 8 \<Longrightarrow> length (round_step s t1 t2) = 8"
  using list8 [of s] by auto

lemma length_rounds: "length s = 8 \<Longrightarrow> length (rounds ks w s) = 8"
  by (induction ks arbitrary: w s) (simp_all add: length_round_step)

lemma length_compress: "length h = 8 \<Longrightarrow> length (compress h blk) = 8"
  by (simp add: compress_def length_rounds)

lemma length_foldl_compress: "length h = 8 \<Longrightarrow> length (foldl compress h blks) = 8"
  by (induction blks arbitrary: h) (simp_all add: length_compress)

lemma length_concat_word_be: "length (concat (map word_be ws)) = 4 * length ws"
  by (induction ws) (simp_all add: word_be_def)

lemma length_sha256: "length (sha256 m) = 32"
  by (simp add: sha256_def length_concat_word_be length_foldl_compress H0_def)

lemma length_dhash: "length (dhash m) = 32"
  by (simp add: dhash_def length_sha256)

lemma be_word_pos_fold: "0 < n \<Longrightarrow> 0 < foldl (\<lambda>a b. a * 256 + unat (b::byte)) n bs"
  by (induction bs arbitrary: n) simp_all

lemma be_word_pos: "b \<noteq> 0 \<Longrightarrow> 0 < be_word (b # bs)"
  by (simp add: be_word_def be_word_pos_fold unat_gt_0)

lemma be_word_leading_zeros: "be_word (replicate q 0 @ r) = be_word r"
  by (induction q) (simp_all add: be_word_def)

lemma base58_bytes_digits:
  assumes "b \<noteq> 0"
  shows "base58_bytes (replicate p (b58_digits ! 0) @ b58_of_nat (be_word (replicate q 0 @ b # bs))) version
           = Inr (concat (replicate p version) @ b # bs)"
proof -
  let ?n = "be_word (b # bs)"
  have pos: "0 < ?n" using assms by (rule be_word_pos)
  have n: "b58_to_nat 0 (replicate p (b58_digits ! 0) @ b58_of_nat ?n) = Inr ?n"
    by (simp add: b58_to_nat_leading_ones b58_to_nat_of_nat)
  have h: "(let h = percent_x ?n in if length h mod 2 \<noteq> 0 then ''0'' @ h else h) = hexlify (b # bs)"
    using assms by (rule percent_x_be_word)
  have pad: "takeWhile (\<lambda>c. c = b58_digits ! 0) (butlast (replicate p (b58_digits ! 0) @ b58_of_nat ?n))
               = replicate p (b58_digits ! 0)"
    using b58_of_nat_hd [OF pos] by (intro takeWhile_pad) simp_all
  have u: "unhexlify (hexlify (b # bs)) = Inr (b # bs)" by (rule unhexlify_hexlify)
  show ?thesis
    unfolding base58_bytes_def be_word_leading_zeros n
    using h by (simp add: Let_def pad u del: hexlify.simps unhexlify.simps)
qed

section \<open>Decoding an encoded address\<close>

lemma base58_decode_bytes:
  assumes "base58_bytes s [v] = Inr (v # data @ chk)" "length chk = 4"
    and "chk = take 4 (dhash (v # data))"
  shows "base58_decode s [v] = Inr data"
  using assms(2) assms(3) [symmetric]
  unfolding base58_decode_def assms(1) by (simp add: Let_def)

lemma encode_bytes:
  assumes "unhexlify b = Inr payload"
    and "(\<exists>x \<in> set (v # payload). x \<noteq> 0) \<or> hd (dhash (v # payload)) \<noteq> 0"
  shows "\<exists>s. base58_check_encode b [v] = Inr s
           \<and> base58_bytes s [v] = Inr (v # payload @ take 4 (dhash (v # payload)))"
proof -
  let ?d = "v # payload"
  let ?chk = "take 4 (dhash ?d)"
  let ?p = "length (takeWhile (\<lambda>c. c = 0) ?d)"
  let ?r = "dropWhile (\<lambda>c. c = 0) ?d @ ?chk"
  have chk: "?chk \<noteq> []" "hd ?chk = hd (dhash ?d)"
    using length_dhash [of ?d] by (auto simp: take_eq_Nil hd_take)
  have zs: "takeWhile (\<lambda>c. c = 0) ?d = replicate ?p 0"
    by (metis (mono_tags, lifting) replicate_length_same set_takeWhileD)
  have d: "?d @ ?chk = replicate ?p 0 @ ?r"
    using takeWhile_dropWhile_id [of "\<lambda>c. c = 0" ?d] zs by (metis append.assoc)
  have r: "?r \<noteq> [] \<and> hd ?r \<noteq> 0"
  proof (cases "dropWhile (\<lambda>c. c = 0) ?d = []")
    case True
    then have "\<forall>x \<in> set ?d. x = 0" by (simp only: dropWhile_eq_Nil_conv)
    then have "hd (dhash ?d) \<noteq> 0" using assms(2) by blast
    then show ?thesis using True chk by simp
  next
    case False
    then have "hd (dropWhile (\<lambda>c. c = 0) ?d) \<noteq> 0" by (rule hd_dropWhile)
    then show ?thesis using False by simp
  qed
  then obtain x xs where x: "?r = x # xs" "x \<noteq> 0" by (cases ?r) auto
  have vs: "concat (replicate ?p [v]) = replicate ?p 0"
  proof (cases "v = 0")
    case True
    then show ?thesis by (induction ?p) simp_all
  next
    case False
    then show ?thesis by simp
  qed
  have d': "?d @ ?chk = replicate ?p 0 @ x # xs"
    by (simp only: d x(1))
  have e0: "base58_check_encode b [v]
             = Inr (replicate ?p (b58_digits ! 0) @ b58_of_nat (be_word (?d @ ?chk)))"
    unfolding base58_check_encode_def assms(1)
    by (simp add: Let_def int16_hexlify del: hexlify.simps takeWhile.simps dropWhile.simps)
  have e: "base58_check_encode b [v]
             = Inr (replicate ?p (b58_digits ! 0) @ b58_of_nat (be_word (replicate ?p 0 @ x # xs)))"
    by (simp only: e0 d')
  have k: "base58_bytes (replicate ?p (b58_digits ! 0) @ b58_of_nat (be_word (replicate ?p 0 @ x # xs))) [v]
          = Inr (concat (replicate ?p [v]) @ x # xs)"
    using x(2) by (rule base58_bytes_digits)
  have "concat (replicate ?p [v]) @ x # xs = ?d @ ?chk"
    by (simp only: vs d')
  then have "base58_bytes (replicate ?p (b58_digits ! 0) @ b58_of_nat (be_word (replicate ?p 0 @ x # xs))) [v]
          = Inr (v # payload @ ?chk)"
    using k by simp
  then show ?thesis using e by blast
qed

lemma decode_encode:
  assumes "unhexlify b = Inr payload"
    and "(\<exists>x \<in> set (v # payload). x \<noteq> 0) \<or> hd (dhash (v # payload)) \<noteq> 0"
  shows "\<exists>s. base58_check_encode b [v] = Inr s \<and> base58_decode s [v] = Inr payload"
proof -
  obtain s where s: "base58_check_encode b [v] = Inr s"
    "base58_bytes s [v] = Inr (v # payload @ take 4 (dhash (v # payload)))"
    using encode_bytes [OF assms] by blast
  have "length (take 4 (dhash (v # payload))) = 4" by (simp add: length_dhash)
  then have "base58_decode s [v] = Inr payload"
    using base58_decode_bytes [OF s(2)] by simp
  then show ?thesis using s(1) by blast
qed

section \<open>Coin selection as a search over prefixes\<close>

lemma find_map_comp: "find P (map f xs) = map_option f (find (P \<circ> f) xs)"
  by (induction xs) simp_all

lemma prefixes_tl: "prefixes r = [] # tl (prefixes r)"
  by (cases r) simp_all

lemma select_coins_prefix:
  "select_coins cfg w required acc tin rest
     = map_option (\<lambda>p. (acc @ p, tin + units cfg w p))
         (find (\<lambda>p. required \<le> tin + units cfg w p) (tl (prefixes rest)))"
proof (induction rest arbitrary: acc tin)
  case Nil
  then show ?case by simp
next
  case (Cons c r)
  let ?u = "round_amount w (coin_amount c) (UNIT cfg)"
  have t: "tl (prefixes (c # r)) = [c] # map ((#) c) (tl (prefixes r))"
    using prefixes_tl [of r] by (metis list.sel(3) list.simps(9) prefixes.simps(2))
  show ?case
  proof (cases "required \<le> tin + ?u")
    case True
    then show ?thesis by (simp add: t units_def del: prefixes.simps)
  next
    case False
    have "select_coins cfg w required acc tin (c # r) = select_coins cfg w required (acc @ [c]) (tin + ?u) r"
      using False by simp
    also have "\<dots> = map_option (\<lambda>p. ((acc @ [c]) @ p, (tin + ?u) + units cfg w p))
         (find (\<lambda>p. required \<le> (tin + ?u) + units cfg w p) (tl (prefixes r)))"
      by (rule Cons.IH)
    also have "\<dots> = map_option (\<lambda>p. (acc @ p, tin + units cfg w p))
         (find (\<lambda>p. required \<le> tin + units cfg w p) (tl (prefixes (c # r))))"
      using False by (simp add: t find_map_comp option.map_comp comp_def units_def add.assoc del: prefixes.simps)
    finally show ?thesis .
  qed
qed


lemmas example_defs = example_config_def example_world_def example_coins_def example_source_def
  example_destination_def example_pycoin_def

lemma example_round_amount:
  "round_amount example_world (1 / 256) 100000000 = 390625"
  "round_amount example_world (1 / 128) 100000000 = 781250"
  by (simp_all add: example_world_def py_round_def Let_def)

lemmas example_values = example_config_def example_coins_def example_source_def
  example_destination_def example_round_amount

lemmas io_defs = io_bind_def no_rpc_def bind_err_def rpc_validateaddress_def rpc_listunspent_def
  rpc_dumpprivkey_def

section \<open>Sequencing\<close>

lemma io_bind_Inl: "io_bind (Inl e, l) f = (Inl e, l)"
  by (simp add: io_bind_def)

lemma io_bind_Inr: "io_bind (Inr x, l) f = (case f x of (r, l') \<Rightarrow> (r, l @ l'))"
  by (simp add: io_bind_def)

lemma io_bind_no_rpc_Inl: "io_bind (no_rpc (Inl e)) f = (Inl e, [])"
  by (simp add: io_bind_def no_rpc_def)

lemma io_bind_no_rpc_Inr: "io_bind (no_rpc (Inr x)) f = f x"
  by (simp add: io_bind_def no_rpc_def split: prod.splits)

lemmas io_simps = io_bind_Inl io_bind_Inr io_bind_no_rpc_Inl io_bind_no_rpc_Inr

section \<open>Funding\<close>

lemma get_inputs_fetched:
  assumes "fetch_listunspent cfg w source unittest = (Inr coins, calls)"
  shows "get_inputs cfg w source required unittest
           = (Inr (select_coins cfg w required [] 0 (filter (\<lambda>c. coin_address c = source) coins)), calls)"
  unfolding get_inputs_def assms by (simp add: io_simps no_rpc_def Let_def)

lemma units_append: "units cfg w (p @ s) = units cfg w p + units cfg w s"
  by (simp add: units_def)

lemma units_nonneg:
  assumes "\<forall>c \<in> set cs. 0 \<le> round_amount w (coin_amount c) (UNIT cfg)"
  shows "0 \<le> units cfg w cs"
  unfolding units_def
proof (rule sum_list_nonneg)
  fix x assume "x \<in> set (map (\<lambda>c. round_amount w (coin_amount c) (UNIT cfg)) cs)"
  then obtain c where "c \<in> set cs" "x = round_amount w (coin_amount c) (UNIT cfg)" by auto
  then show "0 \<le> x" using assms by simp
qed

lemma select_coins_insufficient:
  assumes "\<forall>c \<in> set cs. 0 \<le> round_amount w (coin_amount c) (UNIT cfg)"
    and "units cfg w cs < required"
  shows "select_coins cfg w required [] 0 cs = None"
proof -
  have "\<not> required \<le> units cfg w p" if "p \<in> set (tl (prefixes cs))" for p
  proof -
    have "p \<in> set (prefixes cs)" using that by (metis list.sel(2) list.set_sel(2))
    then obtain s where s: "cs = p @ s" by (auto simp: in_set_prefixes prefix_def)
    then have "\<forall>c \<in> set s. 0 \<le> round_amount w (coin_amount c) (UNIT cfg)"
      using assms(1) by simp
    then have "0 \<le> units cfg w s" by (rule units_nonneg)
    then show ?thesis using assms(2) s by (simp add: units_append)
  qed
  then have "find (\<lambda>p. required \<le> 0 + units cfg w p) (tl (prefixes cs)) = None"
    by (simp add: find_None_iff)
  then show ?thesis by (simp add: select_coins_prefix)
qed

section \<open>The serialiser writes the outputs in the order of the list\<close>

lemma fst_io_bind: "fst (io_bind m f) = bind_err (fst m) (\<lambda>x. fst (f x))"
  by (cases m; cases "fst m") (auto simp: io_bind_def bind_err_def split: prod.splits)

lemma fst_no_rpc: "fst (no_rpc r) = r"
  by (simp add: no_rpc_def)

lemma bind_err_assoc:
  "bind_err (bind_err m f) g = bind_err m (\<lambda>x. bind_err (f x) g)"
  by (cases m) (simp_all add: bind_err_def)

lemma bind_err_Inr: "bind_err (Inr x) f = f x"
  by (simp add: bind_err_def)

lemma bind_err_Inl: "bind_err (Inl e) f = Inl e"
  by (simp add: bind_err_def)

lemma fst_data_output_bytes:
  "fst (data_output_bytes cfg lib w source multisig v chunk)
     = output_bytes cfg lib w source multisig (DataEmbed chunk v)"
  by (simp add: data_output_bytes_def embed_script_def fst_io_bind fst_no_rpc)

lemma fst_data_outputs:
  "fst (data_outputs cfg lib w source multisig v data_array)
     = outputs_bytes cfg lib w source multisig (map (\<lambda>c. DataEmbed c v) data_array)"
  by (induction data_array) (simp_all add: fst_io_bind fst_no_rpc fst_data_output_bytes)

lemma outputs_bytes_append:
  "outputs_bytes cfg lib w source multisig (xs @ ys)
     = bind_err (outputs_bytes cfg lib w source multisig xs) (\<lambda>a.
       bind_err (outputs_bytes cfg lib w source multisig ys) (\<lambda>b. Inr (a @ b)))"
proof (induction xs)
  case Nil
  show ?case by (cases "outputs_bytes cfg lib w source multisig ys") (simp_all add: bind_err_def)
next
  case (Cons x xs)
  show ?case
    by (simp add: Cons bind_err_def split: sum.splits)
qed

lemma outputs_bytes_single:
  "outputs_bytes cfg lib w source multisig [out]
     = output_bytes cfg lib w source multisig out"
  by (cases "output_bytes cfg lib w source multisig out") (simp_all add: bind_err_def)

lemma fst_serialise:
  "fst (serialise cfg lib w inputs d da c source multisig)
     = raw_transaction cfg lib w source multisig inputs
         ((case d of None \<Rightarrow> [] | Some (a, v) \<Rightarrow> [Destination a v])
          @ (case da of None \<Rightarrow> [] | Some (arr, v) \<Rightarrow> map (\<lambda>ch. DataEmbed ch v) arr)
          @ (case c of None \<Rightarrow> [] | Some (a, v) \<Rightarrow> [Change a v]))"
proof -
  obtain arr v where da: "(case da of None \<Rightarrow> [] | Some (arr, v) \<Rightarrow> map (\<lambda>ch. DataEmbed ch v) arr)
      = map (\<lambda>ch. DataEmbed ch v) arr"
    "(case da of Some (data_array, value) \<Rightarrow> data_array | None \<Rightarrow> []) = arr"
    "(case da of Some (data_array, value) \<Rightarrow> value | None \<Rightarrow> 0) = v"
    by (cases da) auto
  have S: "fst (serialise cfg lib w inputs d da c source multisig)
     = bind_err (to_bytes 1 4) (\<lambda>version.
       bind_err (var_int (int (length inputs))) (\<lambda>n_in.
       bind_err (serialise_inputs inputs) (\<lambda>ins.
       bind_err (var_int ((if d \<noteq> None then 1 else 0) + int (length arr) + (if c \<noteq> None then 1 else 0))) (\<lambda>n_out.
       bind_err (case d of None \<Rightarrow> Inr [] | Some out \<Rightarrow> address_output cfg out) (\<lambda>dest.
       bind_err (outputs_bytes cfg lib w source multisig (map (\<lambda>ch. DataEmbed ch v) arr)) (\<lambda>datas.
       bind_err (case c of None \<Rightarrow> Inr [] | Some out \<Rightarrow> address_output cfg out) (\<lambda>change.
       bind_err (to_bytes 0 4) (\<lambda>locktime.
       Inr (version @ n_in @ ins @ n_out @ dest @ datas @ change @ locktime)))))))))"
    unfolding serialise_def
    by (simp add: fst_io_bind fst_no_rpc fst_data_outputs da(2,3) Let_def)
  have D: "(case d of None \<Rightarrow> Inr [] | Some out \<Rightarrow> address_output cfg out)
      = outputs_bytes cfg lib w source multisig (case d of None \<Rightarrow> [] | Some (a, v) \<Rightarrow> [Destination a v])"
    by (cases d) (auto simp: outputs_bytes_single simp del: outputs_bytes.simps(2))
  have C: "(case c of None \<Rightarrow> Inr [] | Some out \<Rightarrow> address_output cfg out)
      = outputs_bytes cfg lib w source multisig (case c of None \<Rightarrow> [] | Some (a, v) \<Rightarrow> [Change a v])"
    by (cases c) (auto simp: outputs_bytes_single simp del: outputs_bytes.simps(2))
  have N: "(if d \<noteq> None then 1 else 0) + int (length arr) + (if c \<noteq> None then 1 else 0)
      = int (length ((case d of None \<Rightarrow> [] | Some (a, v) \<Rightarrow> [Destination a v])
          @ map (\<lambda>ch. DataEmbed ch v) arr
          @ (case c of None \<Rightarrow> [] | Some (a, v) \<Rightarrow> [Change a v])))"
    by (cases d; cases c) auto
  show ?thesis
    unfolding S raw_transaction_def da(1) D C N outputs_bytes_append
    by (simp add: bind_err_assoc bind_err_Inr)
qed


section \<open>A build that succeeds\<close>

lemma io_bind_InrE:
  assumes "io_bind m f = (Inr y, l)"
  obtains x l1 l2 where "m = (Inr x, l1)" "f x = (Inr y, l2)" "l = l1 @ l2"
  using assms by (auto simp: io_bind_def split: prod.splits sum.splits)

lemma no_rpc_eq: "no_rpc r = (r', l) \<longleftrightarrow> r = r' \<and> l = []"
  by (auto simp: no_rpc_def)

lemma select_coins_reaches:
  assumes "select_coins cfg w required [] 0 cs = Some (inputs, total_btc_in)"
  shows "required \<le> total_btc_in"
proof -
  obtain p where p: "find (\<lambda>p. required \<le> 0 + units cfg w p) (tl (prefixes cs)) = Some p"
    "inputs = p" "total_btc_in = units cfg w p"
    using assms by (auto simp: select_coins_prefix)
  then have "required \<le> 0 + units cfg w p" by (auto simp: find_Some_iff)
  then show ?thesis using p by simp
qed

lemma get_inputs_reaches:
  assumes "get_inputs cfg w source required unittest = (Inr (Some (inputs, total_btc_in)), l)"
  shows "required \<le> total_btc_in"
proof -
  from assms obtain coins l1 l2 where
    "no_rpc (Inr (select_coins cfg w required [] 0 (filter (\<lambda>coin. coin_address coin = source) coins)))
       = (Inr (Some (inputs, total_btc_in)), l2)"
    unfolding get_inputs_def by (auto elim!: io_bind_InrE simp: Let_def)
  then have "select_coins cfg w required [] 0 (filter (\<lambda>coin. coin_address coin = source) coins)
       = Some (inputs, total_btc_in)"
    by (simp add: no_rpc_eq)
  then show ?thesis by (rule select_coins_reaches)
qed

lemma divide_data_falsy: "\<not> truthy data \<Longrightarrow> divide_data data multisig = Inr []"
  by (simp add: divide_data_def)

lemma dest_outs:
  "(case (if b then Some (x, y) else None) of None \<Rightarrow> [] | Some (a, v) \<Rightarrow> [Destination a v])
     = (if b then [Destination x y] else [])"
  by simp

lemma change_outs:
  "(case (if tin - T \<noteq> (0::int) then Some (s, tin - T) else None) of
      None \<Rightarrow> [] | Some (a, v) \<Rightarrow> [Change a v])
     = (if tin \<noteq> T then [Change s (tin - T)] else [])"
  by simp

lemma transaction_body_success:
  assumes "transaction_body cfg lib w source destination amount fee data multisig ut = (Inr tx_hex, l)"
  shows "\<exists>data_array inputs total_btc_in tx l'.
      divide_data data multisig = Inr data_array
    \<and> get_inputs cfg w source
          (fee + int (length data_array)
             * (if truthy_multisig multisig then MULTISIG_DUST_SIZE cfg else OP_RETURN_VALUE cfg)
           + (if truthy destination then the amount else 0)) ut
        = (Inr (Some (inputs, total_btc_in)), l')
    \<and> fee + int (length data_array)
             * (if truthy_multisig multisig then MULTISIG_DUST_SIZE cfg else OP_RETURN_VALUE cfg)
           + (if truthy destination then the amount else 0) \<le> total_btc_in
    \<and> tx_hex = hexlify tx
    \<and> raw_transaction cfg lib w source multisig inputs
         ((if truthy destination then [Destination (the destination) (the amount)] else [])
          @ map (\<lambda>c. DataEmbed c
                 (if truthy_multisig multisig then MULTISIG_DUST_SIZE cfg else OP_RETURN_VALUE cfg))
              data_array
          @ (if total_btc_in \<noteq> fee + int (length data_array)
                   * (if truthy_multisig multisig then MULTISIG_DUST_SIZE cfg else OP_RETURN_VALUE cfg)
                 + (if truthy destination then the amount else 0)
             then [Change source (total_btc_in - (fee + int (length data_array)
                   * (if truthy_multisig multisig then MULTISIG_DUST_SIZE cfg else OP_RETURN_VALUE cfg)
                 + (if truthy destination then the amount else 0)))]
             else [])) = Inr tx"
proof -
  let ?dv = "if truthy_multisig multisig then MULTISIG_DUST_SIZE cfg else OP_RETURN_VALUE cfg"
  let ?T = "\<lambda>data_array. fee + int (length data_array) * ?dv
               + (if truthy destination then the amount else 0)"
  obtain data_array where d: "divide_data data multisig = Inr data_array"
    using assms unfolding transaction_body_def
    by (cases "divide_data data multisig") (auto simp: io_simps)
  let ?T = "fee + int (length data_array) * ?dv + (if truthy destination then the amount else 0)"
  let ?ser = "\<lambda>inputs total_btc_in. serialise cfg lib w inputs
                 (if truthy destination then Some (the destination, the amount) else None)
                 (if truthy data then Some (data_array, ?dv) else None)
                 (if total_btc_in - ?T \<noteq> 0 then Some (source, total_btc_in - ?T) else None)
                         source multisig"
  have tb: "transaction_body cfg lib w source destination amount fee data multisig ut
     = io_bind (get_inputs cfg w source ?T ut) (\<lambda>selected.
       case selected of
         None \<Rightarrow> no_rpc (if UNIT cfg = 0 then Inl ZeroDivisionError else Inl (BalanceError source ?T))
       | Some (inputs, total_btc_in) \<Rightarrow>
           io_bind (?ser inputs total_btc_in) (\<lambda>tx. no_rpc (Inr (hexlify tx))))"
    unfolding transaction_body_def d by (simp add: io_simps Let_def)
  obtain selected l3 l4 where
    g: "get_inputs cfg w source ?T ut = (Inr selected, l3)"
    and s: "(case selected of
         None \<Rightarrow> no_rpc (if UNIT cfg = 0 then Inl ZeroDivisionError else Inl (BalanceError source ?T))
       | Some (inputs, total_btc_in) \<Rightarrow>
           io_bind (?ser inputs total_btc_in) (\<lambda>tx. no_rpc (Inr (hexlify tx)))) = (Inr tx_hex, l4)"
    using assms unfolding tb by (rule io_bind_InrE)
  from s obtain inputs total_btc_in where sel: "selected = Some (inputs, total_btc_in)"
    by (cases selected) (auto simp: no_rpc_eq split: if_splits)
  have "io_bind (?ser inputs total_btc_in) (\<lambda>tx. no_rpc (Inr (hexlify tx))) = (Inr tx_hex, l4)"
    using s unfolding sel by simp
  then obtain tx l5 l6 where
    ser: "?ser inputs total_btc_in = (Inr tx, l5)"
    and hex': "no_rpc (Inr (hexlify tx)) = (Inr tx_hex, l6)"
    by (rule io_bind_InrE)
  have hex: "tx_hex = hexlify tx" using hex' by (simp add: no_rpc_eq)
  have le: "?T \<le> total_btc_in" using g sel by (auto intro: get_inputs_reaches)
  have da: "(case (if truthy data then Some (data_array, ?dv) else None) of None \<Rightarrow> []
             | Some (arr, v) \<Rightarrow> map (\<lambda>ch. DataEmbed ch v) arr)
           = map (\<lambda>c. DataEmbed c ?dv) data_array"
    using d divide_data_falsy [of data multisig] by (cases "truthy data") auto
  have "raw_transaction cfg lib w source multisig inputs
         ((case (if truthy destination then Some (the destination, the amount) else None) of
             None \<Rightarrow> [] | Some (a, v) \<Rightarrow> [Destination a v])
          @ (case (if truthy data then Some (data_array, ?dv) else None) of None \<Rightarrow> []
             | Some (arr, v) \<Rightarrow> map (\<lambda>ch. DataEmbed ch v) arr)
          @ (case (if total_btc_in - ?T \<noteq> 0 then Some (source, total_btc_in - ?T) else None) of
             None \<Rightarrow> [] | Some (a, v) \<Rightarrow> [Change a v])) = Inr tx"
    using fst_serialise [of cfg lib w inputs _ _ _ source multisig] ser
    by (metis fst_conv)
  then have "raw_transaction cfg lib w source multisig inputs
         ((if truthy destination then [Destination (the destination) (the amount)] else [])
          @ map (\<lambda>c. DataEmbed c ?dv) data_array
          @ (if total_btc_in \<noteq> ?T then [Change source (total_btc_in - ?T)] else [])) = Inr tx"
    unfolding da dest_outs change_outs .
  then show ?thesis using d g sel le hex by blast
qed

section \<open>Values of the double hash\<close>

lemmas sha_defs = sha256_def compress_def sha_pad_def next_w_def word_be_def be_word_def H0_def K256_def
  rotr_def Ch_def Maj_def bsig0_def bsig1_def ssig0_def ssig1_def m32_def

lemma replicate_num: "replicate (numeral k) x = x # replicate (numeral k - 1) x"
  by (simp add: numeral_eq_Suc)

lemma dhash_zero21:
  "dhash (replicate 21 0) = [148, 160, 9, 17, 196, 218, 39, 249, 39, 23, 39, 255, 167, 161, 77, 141, 85, 136, 252, 15, 255, 153, 100, 52, 14, 196, 6, 95, 56, 126, 98, 43]"
  by (simp add: dhash_def sha_defs replicate_num)

lemma dhash_zero1:
  "dhash [0] = [20, 6, 224, 88, 129, 226, 153, 54, 119, 102, 211, 19, 226, 108, 5, 86, 78, 201, 27, 247, 33, 211, 23, 38, 189, 110, 70, 230, 6, 137, 83, 154]"
  by (simp add: dhash_def sha_defs replicate_num)

lemma bytes_1Wh4bh: "base58_bytes ''1Wh4bh'' [0] = Inr [0, 20, 6, 224, 88]"
  by (simp add: base58_bytes_def b58_digits_def percent_x.simps hex_digits_def hexval_def Let_def)

section \<open>The example addresses\<close>

lemma dhash_example_source:
  "dhash [0, 1, 2, 3, 4, 5, 6, 7, 8, 9, 10, 11, 12, 13, 14, 15, 16, 17, 18, 19, 20] = [250, 85, 182, 74, 248, 13, 108, 236, 180, 187, 88, 254, 68, 144, 231, 240, 233, 56, 34, 243, 141, 16, 189, 191, 231, 62, 49, 70, 24, 147, 222, 178]"
  by (simp add: dhash_def sha_defs replicate_num)

lemma bytes_example_source:
  "base58_bytes example_source [0] = Inr [0, 1, 2, 3, 4, 5, 6, 7, 8, 9, 10, 11, 12, 13, 14, 15, 16, 17, 18, 19, 20, 250, 85, 182, 74]"
  by (simp add: example_source_def base58_bytes_def b58_digits_def percent_x.simps hex_digits_def hexval_def Let_def)

lemma decode_example_source:
  "base58_decode example_source [0] = Inr [1, 2, 3, 4, 5, 6, 7, 8, 9, 10, 11, 12, 13, 14, 15, 16, 17, 18, 19, 20]"
  by (simp add: base58_decode_def bytes_example_source dhash_example_source)

lemma dhash_example_destination:
  "dhash [0, 20, 19, 18, 17, 16, 15, 14, 13, 12, 11, 10, 9, 8, 7, 6, 5, 4, 3, 2, 1] = [55, 153, 28, 221, 181, 4, 232, 48, 238, 24, 54, 251, 124, 230, 26, 57, 255, 91, 134, 141, 220, 157, 63, 158, 104, 113, 147, 231, 115, 142, 127, 10]"
  by (simp add: dhash_def sha_defs replicate_num)

lemma bytes_example_destination:
  "base58_bytes example_destination [0] = Inr [0, 20, 19, 18, 17, 16, 15, 14, 13, 12, 11, 10, 9, 8, 7, 6, 5, 4, 3, 2, 1, 55, 153, 28, 221]"
  by (simp add: example_destination_def base58_bytes_def b58_digits_def percent_x.simps hex_digits_def hexval_def Let_def)

lemma decode_example_destination:
  "base58_decode example_destination [0] = Inr [20, 19, 18, 17, 16, 15, 14, 13, 12, 11, 10, 9, 8, 7, 6, 5, 4, 3, 2, 1]"
  by (simp add: base58_decode_def bytes_example_destination dhash_example_destination)

lemma validate_example_addresses:
  "validate_addresses example_config example_source (Some example_destination) = Inr ()"
  "validate_addresses example_config example_source None = Inr ()"
proof -
  have "example_source \<noteq> []" "example_destination \<noteq> []"
    by (simp_all add: example_source_def example_destination_def)
  then show "validate_addresses example_config example_source (Some example_destination) = Inr ()"
    "validate_addresses example_config example_source None = Inr ()"
    by (simp_all add: validate_addresses_def validate_address_def bind_err_def example_config_def
        decode_example_source decode_example_destination)
qed

section \<open>What a successful build has done\<close>

lemma transaction_success:
  assumes "transaction cfg lib w (source, destination, btc_amount, fee, data) multisig unittest
             = (Inr tx_hex, calls)"
  shows "\<exists>amount l. check_dust cfg destination btc_amount multisig = Inr amount
           \<and> transaction_body cfg lib w source destination amount fee data multisig
                (PREFIX cfg = UNITTEST_PREFIX cfg \<or> unittest) = (Inr tx_hex, l)"
proof -
  have u: "(if PREFIX cfg = UNITTEST_PREFIX cfg then True else unittest)
             = (PREFIX cfg = UNITTEST_PREFIX cfg \<or> unittest)" by simp
  let ?ut = "PREFIX cfg = UNITTEST_PREFIX cfg \<or> unittest"
  have t: "io_bind (no_rpc (validate_addresses cfg source destination)) (\<lambda>_.
      io_bind (check_wallet w source multisig ?ut) (\<lambda>_.
      io_bind (no_rpc (check_dust cfg destination btc_amount multisig)) (\<lambda>btc_amount.
      transaction_body cfg lib w source destination btc_amount fee data multisig ?ut)))
        = (Inr tx_hex, calls)"
    using assms unfolding transaction_def by (simp add: u Let_def)
  from t obtain l1 where
    "io_bind (check_wallet w source multisig ?ut) (\<lambda>_.
      io_bind (no_rpc (check_dust cfg destination btc_amount multisig)) (\<lambda>btc_amount.
      transaction_body cfg lib w source destination btc_amount fee data multisig ?ut))
        = (Inr tx_hex, l1)"
    by (rule io_bind_InrE) auto
  then obtain l2 where
    "io_bind (no_rpc (check_dust cfg destination btc_amount multisig)) (\<lambda>btc_amount.
      transaction_body cfg lib w source destination btc_amount fee data multisig ?ut)
        = (Inr tx_hex, l2)"
    by (rule io_bind_InrE) auto
  then obtain amount l3 l4 where
    "no_rpc (check_dust cfg destination btc_amount multisig) = (Inr amount, l3)"
    "transaction_body cfg lib w source destination amount fee data multisig ?ut = (Inr tx_hex, l4)"
    by (rule io_bind_InrE) auto
  then show ?thesis by (auto simp: no_rpc_eq)
qed

lemma concat_chunks: "0 < n \<Longrightarrow> concat (chunks n xs) = xs"
proof (induction n xs rule: chunks.induct)
  case (1 n)
  then show ?case by simp
next
  case (2 n x xs)
  then show ?case by simp
qed

lemma divide_data_concat:
  assumes "divide_data (Some data) multisig = Inr data_array"
  shows "concat data_array = data"
proof (cases "data = []")
  case True
  then show ?thesis using assms by (simp add: divide_data_def)
next
  case False
  then have "data_array = chunks 32 data \<or> data_array = chunks 80 data"
    using assms by (auto simp: divide_data_def Let_def split: if_splits)
  then show ?thesis by (auto simp: concat_chunks)
qed

lemma check_dust_destination:
  assumes "check_dust cfg (Some destination) btc_amount multisig = Inr amount" and "destination \<noteq> []"
  shows "\<exists>a. amount = Some a"
  using assms by (auto simp: check_dust_def Let_def split: if_splits)

section \<open>Claims on the Base58Check codec\<close>

text \<open>
  C2. For a payload of twenty bytes given in hexadecimal and a one-byte version, encoding
  succeeds and decoding the encoded string with the same version gives the payload back.
  \<^verbatim>\<open>base58_decode\<close> returns the payload alone; the version it has checked is the one passed in.
\<close>

theorem base58_round_trip:
  assumes "unhexlify b = Inr payload" and "length payload = 20"
  shows "\<exists>s. base58_check_encode b [version] = Inr s \<and> base58_decode s [version] = Inr payload"
proof (cases "\<exists>x \<in> set (version # payload). x \<noteq> 0")
  case True
  then show ?thesis using decode_encode [OF assms(1)] by blast
next
  case False
  then have "version # payload = replicate (length (version # payload)) 0"
    by (metis (full_types) replicate_length_same)
  then have "version # payload = replicate 21 0" using assms(2) by simp
  then have "hd (dhash (version # payload)) \<noteq> 0" by (simp add: dhash_zero21)
  then show ?thesis using decode_encode [OF assms(1)] by blast
qed

theorem base58_round_trip_witness:
  "unhexlify ''0102030405060708090a0b0c0d0e0f1011121314''
     = Inr [1, 2, 3, 4, 5, 6, 7, 8, 9, 10, 11, 12, 13, 14, 15, 16, 17, 18, 19, 20]
   \<and> (\<exists>s. base58_check_encode ''0102030405060708090a0b0c0d0e0f1011121314'' [0] = Inr s
          \<and> base58_decode s [0] = Inr [1, 2, 3, 4, 5, 6, 7, 8, 9, 10, 11, 12, 13, 14, 15, 16, 17, 18, 19, 20])"
proof -
  have u: "unhexlify ''0102030405060708090a0b0c0d0e0f1011121314''
     = Inr [1, 2, 3, 4, 5, 6, 7, 8, 9, 10, 11, 12, 13, 14, 15, 16, 17, 18, 19, 20]"
    by (simp add: hexval_def)
  show ?thesis
    using u base58_round_trip [OF u, of 0] by simp
qed

text \<open>
  C9. Whatever the length of the payload: when the bytes that \<^verbatim>\<open>base58_decode\<close> builds from
  a string start with the expected version byte and end with the first four bytes of the
  double hash of all bytes before them, decoding succeeds and returns the bytes in between.
  The witness decodes a string whose payload is empty.
\<close>

theorem base58_decode_any_length:
  assumes "base58_bytes s [version] = Inr k" and "5 \<le> length k" and "hd k = version"
    and "drop (length k - 4) k = take 4 (dhash (take (length k - 4) k))"
  shows "base58_decode s [version] = Inr (drop 1 (take (length k - 4) k))"
proof -
  let ?data = "drop 1 (take (length k - 4) k)"
  let ?chk = "drop (length k - 4) k"
  have t: "take (length k - 4) k = version # ?data"
    using assms(2,3) by (cases k) (simp_all add: take_Cons' drop_Cons')
  have k: "k = version # ?data @ ?chk"
    using t append_take_drop_id [of "length k - 4" k] by (metis append_Cons)
  have l: "length ?chk = 4" using assms(2) by simp
  have c: "?chk = take 4 (dhash (version # ?data))" using assms(4) t by simp
  have "base58_bytes s [version] = Inr (version # ?data @ ?chk)" using assms(1) k by simp
  then show ?thesis using l c by (rule base58_decode_bytes)
qed

theorem base58_decode_any_length_witness:
  "base58_bytes ''1Wh4bh'' [0] = Inr [0, 20, 6, 224, 88] \<and> base58_decode ''1Wh4bh'' [0] = Inr []"
proof -
  have "drop (length [0, 20, 6, 224, 88 :: byte] - 4) [0, 20, 6, 224, 88 :: byte]
          = take 4 (dhash (take (length [0, 20, 6, 224, 88 :: byte] - 4) [0, 20, 6, 224, 88]))"
    by (simp add: dhash_zero1)
  then show ?thesis
    using base58_decode_any_length [OF bytes_1Wh4bh] by (simp add: bytes_1Wh4bh dhash_zero1)
qed

section \<open>Claims on coin selection\<close>

text \<open>
  C3, as the code has it. Whatever list the coin source returns, \<^verbatim>\<open>get_inputs\<close> keeps the coins
  of the source address in the order received and returns the shortest prefix holding at
  least one coin whose sum reaches the required total, with that sum; it returns nothing
  when no such prefix exists. The calls made are those of fetching the list. The amount of
  a coin in the smallest unit is whatever the runtime's \<^verbatim>\<open>round(coin['amount'] * config.UNIT)\<close>
  gives, and the sums are sums of these.
\<close>

theorem get_inputs_shortest_nonempty_prefix:
  assumes "fetch_listunspent cfg w source unittest = (Inr coins, calls)"
  shows "get_inputs cfg w source required unittest
           = (Inr (shortest_nonempty_prefix cfg w required
                    (filter (\<lambda>c. coin_address c = source) coins)), calls)"
  unfolding get_inputs_def assms
  by (simp add: io_bind_def no_rpc_def select_coins_prefix shortest_nonempty_prefix_def Let_def)

theorem get_inputs_shortest_nonempty_prefix_witness:
  "fetch_listunspent example_config example_world example_source False
     = (Inr example_coins, [RpcCall ''validateaddress'' [example_source], RpcCall ''listunspent'' []])
   \<and> get_inputs example_config example_world example_source 1000000 False
     = (Inr (Some ([example_coins ! 0, example_coins ! 2], 1171875)),
        [RpcCall ''validateaddress'' [example_source], RpcCall ''listunspent'' []])"
proof -
  have f: "fetch_listunspent example_config example_world example_source False
     = (Inr example_coins, [RpcCall ''validateaddress'' [example_source], RpcCall ''listunspent'' []])"
    by (simp add: fetch_listunspent_def io_defs example_world_def)
  have "shortest_nonempty_prefix example_config example_world 1000000
          (filter (\<lambda>c. coin_address c = example_source) example_coins)
          = Some ([example_coins ! 0, example_coins ! 2], 1171875)"
    by (simp add: shortest_nonempty_prefix_def units_def example_values)
  then show ?thesis
    using f get_inputs_shortest_nonempty_prefix [OF f, of 1000000] by simp
qed

text \<open>
  C3 as stated fails for a required total of zero: the empty prefix already reaches it, and
  the code selects the first coin.
\<close>

theorem get_inputs_shortest_prefix_counterexample:
  "get_inputs example_config example_world example_source 0 True
     \<noteq> (Inr (shortest_prefix example_config example_world 0
               (filter (\<lambda>c. coin_address c = example_source) (listunspent_test_file example_world))), [])"
proof -
  have f: "listunspent_test_file example_world = example_coins"
    by (simp add: example_world_def)
  have g: "get_inputs example_config example_world example_source 0 True
             = (Inr (Some ([example_coins ! 0], 390625)), [])"
    by (simp add: get_inputs_def fetch_listunspent_def io_defs f Let_def example_values)
  have s: "shortest_prefix example_config example_world 0
             (filter (\<lambda>c. coin_address c = example_source) example_coins) = Some ([], 0)"
    by (simp add: shortest_prefix_def units_def example_values)
  show ?thesis unfolding g f s by simp
qed

section \<open>Claims on the transaction builder\<close>




text \<open>
  C10. Without a destination, once the source address is valid and the wallet check has
  passed, an amount that is neither absent nor zero stops the build with
  \<^verbatim>\<open>AssertionError\<close>; an absent or zero amount lets it go on with the division of the data,
  the funding and the serialisation.
\<close>

theorem no_destination_amount:
  assumes "\<not> truthy destination"
    and "validate_addresses cfg source destination = Inr ()"
    and "check_wallet w source multisig (PREFIX cfg = UNITTEST_PREFIX cfg \<or> unittest) = (Inr (), calls)"
  shows "transaction cfg lib w (source, destination, btc_amount, fee, data) multisig unittest =
     (if truthy_amount btc_amount then (Inl AssertionError, calls)
      else (case transaction_body cfg lib w source destination btc_amount fee data multisig
                   (PREFIX cfg = UNITTEST_PREFIX cfg \<or> unittest)
            of (r, l) \<Rightarrow> (r, calls @ l)))"
proof -
  have u: "(if PREFIX cfg = UNITTEST_PREFIX cfg then True else unittest)
             = (PREFIX cfg = UNITTEST_PREFIX cfg \<or> unittest)" by simp
  have d: "check_dust cfg destination btc_amount multisig
             = (if truthy_amount btc_amount then Inl AssertionError else Inr btc_amount)"
    using assms(1) by (simp add: check_dust_def)
  show ?thesis
    unfolding transaction_def
    by (simp add: assms(2,3) d u io_simps Let_def)
qed

theorem no_destination_amount_witness:
  "\<not> truthy None
   \<and> validate_addresses example_config example_source None = Inr ()
   \<and> check_wallet example_world example_source (MsBool False)
        (PREFIX example_config = UNITTEST_PREFIX example_config \<or> True) = (Inr (), [])
   \<and> transaction example_config example_pycoin example_world
        (example_source, None, Some 5, 10000, None) (MsBool False) True = (Inl AssertionError, [])"
proof -
  have t: "\<not> truthy (None :: string option)" by simp
  have c: "check_wallet example_world example_source (MsBool False)
        (PREFIX example_config = UNITTEST_PREFIX example_config \<or> True) = (Inr (), [])"
    by (simp add: check_wallet_def no_rpc_def)
  show ?thesis
    using no_destination_amount [OF t validate_example_addresses(2) c, of example_pycoin "Some 5" 10000 None]
      validate_example_addresses(2) c
    by simp
qed

text \<open>
  C6, as the code has it. When the checks before funding pass, the coin source answers, no
  coin has a negative amount in the smallest unit (as the runtime rounds it), the unit is
  not zero and the coins of the source sum to less than the total needed, the build fails
  with \<^verbatim>\<open>BalanceError\<close>, which names the source and the total needed. Nothing is serialised:
  the only calls to the node are those of the wallet check and of fetching the coins.
\<close>

theorem insufficient_funds:
  assumes "validate_addresses cfg source destination = Inr ()"
    and "check_wallet w source multisig (PREFIX cfg = UNITTEST_PREFIX cfg \<or> unittest) = (Inr (), calls1)"
    and "check_dust cfg destination btc_amount multisig = Inr amount"
    and "divide_data data multisig = Inr data_array"
    and "fetch_listunspent cfg w source (PREFIX cfg = UNITTEST_PREFIX cfg \<or> unittest) = (Inr coins, calls2)"
    and "\<forall>c \<in> set coins. 0 \<le> round_amount w (coin_amount c) (UNIT cfg)" and "UNIT cfg \<noteq> 0"
    and "required = fee + int (length data_array)
            * (if truthy_multisig multisig then MULTISIG_DUST_SIZE cfg else OP_RETURN_VALUE cfg)
          + (if truthy destination then the amount else 0)"
    and "units cfg w (filter (\<lambda>c. coin_address c = source) coins) < required"
  shows "transaction cfg lib w (source, destination, btc_amount, fee, data) multisig unittest
           = (Inl (BalanceError source required), calls1 @ calls2)"
proof -
  have u: "(if PREFIX cfg = UNITTEST_PREFIX cfg then True else unittest)
             = (PREFIX cfg = UNITTEST_PREFIX cfg \<or> unittest)" by simp
  have "\<forall>c \<in> set (filter (\<lambda>c. coin_address c = source) coins).
          0 \<le> round_amount w (coin_amount c) (UNIT cfg)"
    using assms(6) by simp
  then have s: "select_coins cfg w required [] 0 (filter (\<lambda>c. coin_address c = source) coins) = None"
    using assms(9) by (rule select_coins_insufficient)
  have g: "get_inputs cfg w source required (PREFIX cfg = UNITTEST_PREFIX cfg \<or> unittest)
             = (Inr None, calls2)"
    using get_inputs_fetched [OF assms(5)] s by simp
  have b: "transaction_body cfg lib w source destination amount fee data multisig
             (PREFIX cfg = UNITTEST_PREFIX cfg \<or> unittest)
             = (Inl (BalanceError source required), calls2)"
    unfolding transaction_body_def
    by (simp add: assms(4,7) assms(8) [symmetric] g io_simps Let_def no_rpc_def)
  show ?thesis
    unfolding transaction_def
    by (simp add: assms(1,2,3) u b io_simps Let_def)
qed


lemma units_example_coins:
  "units example_config example_world (filter (\<lambda>c. coin_address c = example_source) example_coins) = 1171875"
  "units example_config example_world (filter (\<lambda>c. coin_address c = example_source) [hd example_coins]) = 390625"
  by (simp_all add: units_def example_values)

theorem insufficient_funds_witness:
  "fetch_listunspent example_config example_world example_source
     (PREFIX example_config = UNITTEST_PREFIX example_config \<or> True) = (Inr example_coins, [])
   \<and> units example_config example_world (filter (\<lambda>c. coin_address c = example_source) example_coins) < 2000000
   \<and> transaction example_config example_pycoin example_world
        (example_source, None, None, 2000000, None) (MsBool False) True
       = (Inl (BalanceError example_source 2000000), [])"
proof -
  have w: "check_wallet example_world example_source (MsBool False)
        (PREFIX example_config = UNITTEST_PREFIX example_config \<or> True) = (Inr (), [])"
    by (simp add: check_wallet_def no_rpc_def)
  have d: "check_dust example_config None None (MsBool False) = Inr None"
    by (simp add: check_dust_def)
  have a: "divide_data None (MsBool False) = Inr []"
    by (simp add: divide_data_def)
  have f: "fetch_listunspent example_config example_world example_source
     (PREFIX example_config = UNITTEST_PREFIX example_config \<or> True) = (Inr example_coins, [])"
    by (simp add: fetch_listunspent_def no_rpc_def example_world_def)
  have n: "\<forall>c \<in> set example_coins.
            0 \<le> round_amount example_world (coin_amount c) (UNIT example_config)"
    "UNIT example_config \<noteq> 0"
    by (simp_all add: example_coins_def example_config_def example_world_def py_round_def Let_def)
  have r: "(2000000::int) = 2000000 + int (length ([] :: bytes list))
            * (if truthy_multisig (MsBool False) then MULTISIG_DUST_SIZE example_config
               else OP_RETURN_VALUE example_config)
          + (if truthy (None :: string option) then the None else 0)"
    by simp
  have l: "units example_config example_world (filter (\<lambda>c. coin_address c = example_source) example_coins) < 2000000"
    by (simp add: units_example_coins)
  show ?thesis
    using insufficient_funds [OF validate_example_addresses(2) w d a f n r l, of example_pycoin] f l
    by simp
qed

text \<open>
  C6 as stated fails: the error names the source and the total needed, and nothing of what
  the source holds. Two wallets holding different sums give the same error.
\<close>

theorem insufficient_funds_have_counterexample:
  "units example_config example_world (filter (\<lambda>c. coin_address c = example_source)
       (listunspent_test_file example_world)) = 1171875
   \<and> units example_config example_world (filter (\<lambda>c. coin_address c = example_source)
       (listunspent_test_file (example_world\<lparr>listunspent_test_file := [hd example_coins]\<rparr>))) = 390625
   \<and> transaction example_config example_pycoin example_world
        (example_source, None, None, 2000000, None) (MsBool False) True
       = (Inl (BalanceError example_source 2000000), [])
   \<and> transaction example_config example_pycoin (example_world\<lparr>listunspent_test_file := [hd example_coins]\<rparr>)
        (example_source, None, None, 2000000, None) (MsBool False) True
       = (Inl (BalanceError example_source 2000000), [])"
proof -
  have g: "get_inputs example_config w example_source 2000000 True = (Inr None, [])"
    if "listunspent_test_file w = example_coins \<or> listunspent_test_file w = [hd example_coins]"
      and "round_amount w = round_amount example_world" for w
    using that
    by (auto simp add: get_inputs_def fetch_listunspent_def io_simps no_rpc_def Let_def example_values)
  have t: "transaction example_config example_pycoin w
        (example_source, None, None, 2000000, None) (MsBool False) True
       = (Inl (BalanceError example_source 2000000), [])"
    if "listunspent_test_file w = example_coins \<or> listunspent_test_file w = [hd example_coins]"
      and "round_amount w = round_amount example_world" for w
    unfolding transaction_def transaction_body_def
    by (simp add: validate_example_addresses check_wallet_def check_dust_def divide_data_def
        g [OF that] io_simps no_rpc_def Let_def)
      (simp add: example_config_def)
  have f: "listunspent_test_file example_world = example_coins"
    "listunspent_test_file (example_world\<lparr>listunspent_test_file := [hd example_coins]\<rparr>)
       = [hd example_coins]"
    by (simp_all add: example_world_def)
  have u: "units example_config example_world (filter (\<lambda>c. coin_address c = example_source)
       (listunspent_test_file example_world)) = 1171875"
    "units example_config example_world (filter (\<lambda>c. coin_address c = example_source)
       (listunspent_test_file (example_world\<lparr>listunspent_test_file := [hd example_coins]\<rparr>))) = 390625"
    by (simp_all only: f units_example_coins)
  have "transaction example_config example_pycoin example_world
        (example_source, None, None, 2000000, None) (MsBool False) True
       = (Inl (BalanceError example_source 2000000), [])"
    by (rule t) (simp_all add: f)
  moreover have "transaction example_config example_pycoin
        (example_world\<lparr>listunspent_test_file := [hd example_coins]\<rparr>)
        (example_source, None, None, 2000000, None) (MsBool False) True
       = (Inl (BalanceError example_source 2000000), [])"
    by (rule t) (simp_all add: f(2))
  ultimately show ?thesis using u by blast
qed

text \<open>C1\<close>
theorem output_order:
  assumes "transaction cfg lib w (source, Some destination, btc_amount, fee, Some data) multisig unittest
             = (Inr tx_hex, calls)"
    and "destination \<noteq> []" and "data \<noteq> []"
    and "data_value = (if truthy_multisig multisig then MULTISIG_DUST_SIZE cfg else OP_RETURN_VALUE cfg)"
  shows "\<exists>amount data_array inputs total_btc_in total_btc_out l.
      check_dust cfg (Some destination) btc_amount multisig = Inr (Some amount)
    \<and> divide_data (Some data) multisig = Inr data_array
    \<and> concat data_array = data
    \<and> total_btc_out = fee + int (length data_array) * data_value + amount
    \<and> get_inputs cfg w source total_btc_out (PREFIX cfg = UNITTEST_PREFIX cfg \<or> unittest)
        = (Inr (Some (inputs, total_btc_in)), l)
    \<and> (total_btc_out < total_btc_in \<longrightarrow>
        (\<exists>tx. tx_hex = hexlify tx
           \<and> raw_transaction cfg lib w source multisig inputs
               (Destination destination amount
                # map (\<lambda>chunk. DataEmbed chunk data_value) data_array
                @ [Change source (total_btc_in - total_btc_out)]) = Inr tx))"
proof -
  obtain amount' l where
    c: "check_dust cfg (Some destination) btc_amount multisig = Inr amount'"
    and b: "transaction_body cfg lib w source (Some destination) amount' fee (Some data) multisig
                (PREFIX cfg = UNITTEST_PREFIX cfg \<or> unittest) = (Inr tx_hex, l)"
    using transaction_success [OF assms(1)] by blast
  obtain amount where a: "amount' = Some amount"
    using check_dust_destination [OF c assms(2)] by blast
  have tt: "truthy (Some destination) = True" using assms(2) by simp
  note S = transaction_body_success [OF b, unfolded a tt if_True option.sel assms(4) [symmetric]]
  from S obtain data_array inputs total_btc_in tx l' where
    d: "divide_data (Some data) multisig = Inr data_array"
    and g: "get_inputs cfg w source (fee + int (length data_array) * data_value + amount)
              (PREFIX cfg = UNITTEST_PREFIX cfg \<or> unittest) = (Inr (Some (inputs, total_btc_in)), l')"
    and h: "tx_hex = hexlify tx"
    and r: "raw_transaction cfg lib w source multisig inputs
         ([Destination destination amount]
          @ map (\<lambda>c. DataEmbed c data_value) data_array
          @ (if total_btc_in \<noteq> fee + int (length data_array) * data_value + amount
             then [Change source (total_btc_in - (fee + int (length data_array) * data_value + amount))]
             else [])) = Inr tx"
    by (elim exE conjE) (rule that)
  have "total_btc_out < total_btc_in \<longrightarrow>
        (\<exists>tx. tx_hex = hexlify tx
           \<and> raw_transaction cfg lib w source multisig inputs
               (Destination destination amount
                # map (\<lambda>chunk. DataEmbed chunk data_value) data_array
                @ [Change source (total_btc_in - total_btc_out)]) = Inr tx)"
    if "total_btc_out = fee + int (length data_array) * data_value + amount" for total_btc_out
  proof (rule impI)
    assume "total_btc_out < total_btc_in"
    then have ne: "total_btc_in \<noteq> fee + int (length data_array) * data_value + amount"
      using that by simp
    have "raw_transaction cfg lib w source multisig inputs
               (Destination destination amount
                # map (\<lambda>chunk. DataEmbed chunk data_value) data_array
                @ [Change source (total_btc_in - total_btc_out)]) = Inr tx"
      using r [unfolded if_P [OF ne]] unfolding that by simp
    then show "\<exists>tx. tx_hex = hexlify tx
           \<and> raw_transaction cfg lib w source multisig inputs
               (Destination destination amount
                # map (\<lambda>chunk. DataEmbed chunk data_value) data_array
                @ [Change source (total_btc_in - total_btc_out)]) = Inr tx"
      using h by (intro exI conjI)
  qed
  note imp = this [OF refl]
  show ?thesis
  proof (intro exI conjI)
    show "check_dust cfg (Some destination) btc_amount multisig = Inr (Some amount)"
      using c a by simp
    show "divide_data (Some data) multisig = Inr data_array" by (fact d)
    show "concat data_array = data" by (rule divide_data_concat [OF d])
    show "fee + int (length data_array) * data_value + amount
            = fee + int (length data_array) * data_value + amount" by (rule refl)
    show "get_inputs cfg w source (fee + int (length data_array) * data_value + amount)
              (PREFIX cfg = UNITTEST_PREFIX cfg \<or> unittest) = (Inr (Some (inputs, total_btc_in)), l')"
      by (fact g)
    show "fee + int (length data_array) * data_value + amount < total_btc_in \<longrightarrow>
        (\<exists>tx. tx_hex = hexlify tx
           \<and> raw_transaction cfg lib w source multisig inputs
               (Destination destination amount
                # map (\<lambda>chunk. DataEmbed chunk data_value) data_array
                @ [Change source (total_btc_in - (fee + int (length data_array) * data_value + amount))])
              = Inr tx)"
      by (fact imp)
  qed
qed

text \<open>C8\<close>
theorem change_output_exact:
  assumes "transaction cfg lib w (source, destination, btc_amount, fee, data) multisig unittest
             = (Inr tx_hex, calls)"
    and "data_value = (if truthy_multisig multisig then MULTISIG_DUST_SIZE cfg else OP_RETURN_VALUE cfg)"
  shows "\<exists>amount data_array inputs total_btc_in total_btc_out l.
      check_dust cfg destination btc_amount multisig = Inr amount
    \<and> divide_data data multisig = Inr data_array
    \<and> total_btc_out = fee + int (length data_array) * data_value
                         + (if truthy destination then the amount else 0)
    \<and> get_inputs cfg w source total_btc_out (PREFIX cfg = UNITTEST_PREFIX cfg \<or> unittest)
        = (Inr (Some (inputs, total_btc_in)), l)
    \<and> total_btc_out \<le> total_btc_in
    \<and> (total_btc_out < total_btc_in \<longrightarrow>
        (\<exists>tx. tx_hex = hexlify tx
           \<and> raw_transaction cfg lib w source multisig inputs
               ((if truthy destination then [Destination (the destination) (the amount)] else [])
                @ map (\<lambda>chunk. DataEmbed chunk data_value) data_array
                @ [Change source (total_btc_in - total_btc_out)]) = Inr tx))"
proof -
  obtain amount l where
    c: "check_dust cfg destination btc_amount multisig = Inr amount"
    and b: "transaction_body cfg lib w source destination amount fee data multisig
                (PREFIX cfg = UNITTEST_PREFIX cfg \<or> unittest) = (Inr tx_hex, l)"
    using transaction_success [OF assms(1)] by blast
  let ?T = "fee + int (length (data_array :: bytes list)) * data_value
              + (if truthy destination then the amount else 0)"
  note S = transaction_body_success [OF b, unfolded assms(2) [symmetric]]
  from S obtain data_array inputs total_btc_in tx l' where
    d: "divide_data data multisig = Inr data_array"
    and g: "get_inputs cfg w source (fee + int (length data_array) * data_value
              + (if truthy destination then the amount else 0))
              (PREFIX cfg = UNITTEST_PREFIX cfg \<or> unittest) = (Inr (Some (inputs, total_btc_in)), l')"
    and le: "fee + int (length data_array) * data_value
              + (if truthy destination then the amount else 0) \<le> total_btc_in"
    and h: "tx_hex = hexlify tx"
    and r: "raw_transaction cfg lib w source multisig inputs
         ((if truthy destination then [Destination (the destination) (the amount)] else [])
          @ map (\<lambda>c. DataEmbed c data_value) data_array
          @ (if total_btc_in \<noteq> fee + int (length data_array) * data_value
                  + (if truthy destination then the amount else 0)
             then [Change source (total_btc_in - (fee + int (length data_array) * data_value
                  + (if truthy destination then the amount else 0)))]
             else [])) = Inr tx"
    by (elim exE conjE) (rule that)
  have "total_btc_out < total_btc_in \<longrightarrow>
        (\<exists>tx. tx_hex = hexlify tx
           \<and> raw_transaction cfg lib w source multisig inputs
               ((if truthy destination then [Destination (the destination) (the amount)] else [])
                @ map (\<lambda>chunk. DataEmbed chunk data_value) data_array
                @ [Change source (total_btc_in - total_btc_out)]) = Inr tx)"
    if "total_btc_out = fee + int (length data_array) * data_value
                         + (if truthy destination then the amount else 0)" for total_btc_out
  proof (rule impI)
    assume "total_btc_out < total_btc_in"
    then have ne: "total_btc_in \<noteq> fee + int (length data_array) * data_value
                  + (if truthy destination then the amount else 0)"
      using that by simp
    have r': "raw_transaction cfg lib w source multisig inputs
               ((if truthy destination then [Destination (the destination) (the amount)] else [])
                @ map (\<lambda>chunk. DataEmbed chunk data_value) data_array
                @ [Change source (total_btc_in - total_btc_out)]) = Inr tx"
      using r [unfolded if_P [OF ne]] unfolding that .
    then show "\<exists>tx. tx_hex = hexlify tx
           \<and> raw_transaction cfg lib w source multisig inputs
               ((if truthy destination then [Destination (the destination) (the amount)] else [])
                @ map (\<lambda>chunk. DataEmbed chunk data_value) data_array
                @ [Change source (total_btc_in - total_btc_out)]) = Inr tx"
      using h by (intro exI conjI)
  qed
  note imp = this [OF refl]
  show ?thesis
  proof (intro exI conjI)
    show "check_dust cfg destination btc_amount multisig = Inr amount" by (fact c)
    show "divide_data data multisig = Inr data_array" by (fact d)
    show "fee + int (length data_array) * data_value + (if truthy destination then the amount else 0)
            = fee + int (length data_array) * data_value + (if truthy destination then the amount else 0)"
      by (rule refl)
    show "get_inputs cfg w source (fee + int (length data_array) * data_value
              + (if truthy destination then the amount else 0))
              (PREFIX cfg = UNITTEST_PREFIX cfg \<or> unittest) = (Inr (Some (inputs, total_btc_in)), l')"
      by (fact g)
    show "fee + int (length data_array) * data_value + (if truthy destination then the amount else 0)
            \<le> total_btc_in" by (fact le)
    show "fee + int (length data_array) * data_value + (if truthy destination then the amount else 0)
            < total_btc_in \<longrightarrow>
        (\<exists>tx. tx_hex = hexlify tx
           \<and> raw_transaction cfg lib w source multisig inputs
               ((if truthy destination then [Destination (the destination) (the amount)] else [])
                @ map (\<lambda>chunk. DataEmbed chunk data_value) data_array
                @ [Change source (total_btc_in - (fee + int (length data_array) * data_value
                     + (if truthy destination then the amount else 0)))]) = Inr tx)"
      by (fact imp)
  qed
qed

end
